theory Spec2Isabelle
  imports Complex_Main
begin

section \<open>Data model\<close>

text \<open>
  The repository is a position-protection reconciler for one futures symbol
  (\<open>SOLUSDC\<close>) written against the go-binance futures client. It comes as a
  library (\<open>pkg/trading/trader.go\<close>) and several near-duplicate command-line
  variants; the four variants modelled here are referred to by the suffixes
  \<open>_p0\<close> .. \<open>_p3\<close> (source files \<open>part_000\<close> .. \<open>part_003\<close>).

  Numbers. The source computes in \<open>float64\<close>; the model computes in \<open>real\<close>, so
  rounding error of the binary representation, infinities and NaN are outside
  the model. The venue transmits numbers as decimal strings and the source
  parses them with \<open>strconv.ParseFloat\<close>, discarding the parse error; the
  numeric fields below hold the parsed value (0 for an unparsable string).
\<close>

datatype SideType = SideTypeBuy | SideTypeSell

datatype PositionSideType = PositionSideTypeBoth | PositionSideTypeLong | PositionSideTypeShort

datatype OrderType =
    OrderTypeLimit
  | OrderTypeMarket
  | OrderTypeStop
  | OrderTypeStopMarket
  | OrderTypeTakeProfit
  | OrderTypeTakeProfitMarket
  | OrderTypeTrailingStopMarket

datatype TimeInForceType = TimeInForceTypeGTC | TimeInForceTypeIOC | TimeInForceTypeFOK

text \<open>\<open>futures.PositionRisk\<close>, restricted to the fields the source reads.\<close>

record PositionRisk =
  Symbol :: string
  PositionAmt :: real
  EntryPrice :: real
  UnRealizedProfit :: real

text \<open>\<open>futures.Order\<close>, an order resting at the venue.\<close>

record Order =
  OrderID :: int
  Side :: SideType
  PositionSide :: PositionSideType
  Type :: OrderType
  OrigQuantity :: real
  Price :: real
  StopPrice :: real
  ReduceOnly :: bool

text \<open>
  \<open>futures.CreateOrderService\<close>: the request the source assembles with the
  builder calls \<open>Symbol\<close>, \<open>Side\<close>, \<open>PositionSide\<close>, \<open>Type\<close>, \<open>TimeInForce\<close>,
  \<open>Quantity\<close>, \<open>Price\<close>, \<open>StopPrice\<close>, \<open>WorkingType\<close>. A field the source does not set is \<open>None\<close>.
  Quantity and prices are the numbers denoted by the strings the source formats.
\<close>

record CreateOrderService =
  reqSymbol :: string
  reqSide :: SideType
  reqPositionSide :: "PositionSideType option"
  reqType :: OrderType
  reqTimeInForce :: "TimeInForceType option"
  reqQuantity :: real
  reqPrice :: "real option"
  reqStopPrice :: "real option"
  reqWorkingType :: "string option"

text \<open>
  Errors as values. \<open>VenueError n\<close> is an error returned by the gateway; the
  other constructors are the wrappers the source builds with \<open>fmt.Errorf\<close>.
\<close>

datatype error =
    VenueError nat
  | PositionNotFound
  | ListOrdersFailed error
  | CancelOrdersFailed error
  | CreateStopLossFailed error
  | CreateTakeProfitFailed error
  | ProtectiveCloseFailed error

section \<open>Numeric helpers\<close>

text \<open>\<open>math.Round\<close>: nearest integer, halves away from zero.\<close>

definition math_Round :: "real \<Rightarrow> real" where
  "math_Round x = (if x < 0 then - of_int \<lfloor>- x + 1 / 2\<rfloor> else of_int \<lfloor>x + 1 / 2\<rfloor>)"

text \<open>\<open>roundToTickSize\<close>, the same in every variant.\<close>

definition roundToTickSize :: "real \<Rightarrow> real \<Rightarrow> real" where
  "roundToTickSize price tickSize = math_Round (price / tickSize) * tickSize"

text \<open>
  \<open>fmt.Sprintf("%.Nf", x)\<close> prints the decimal with \<open>N\<close> fractional digits
  nearest to \<open>x\<close>, a tie going to the even last digit. \<open>Sprintf_f N x\<close> is
  the number that string denotes.
\<close>

definition roundHalfEven :: "real \<Rightarrow> int" where
  "roundHalfEven y =
     (let f = \<lfloor>y\<rfloor>; d = y - of_int f
      in if d < 1 / 2 then f
         else if 1 / 2 < d then f + 1
         else if even f then f else f + 1)"

definition Sprintf_f :: "nat \<Rightarrow> real \<Rightarrow> real" where
  "Sprintf_f N x = of_int (roundHalfEven (x * 10 ^ N)) / 10 ^ N"

section \<open>The exchange gateway\<close>

text \<open>
  The venue is an external collaborator; the source reaches it only through
  the four calls below. \<open>world\<close> is what the source runs against: the
  orders resting at the venue, the position-risk listing it reports, the wall
  clock (nanoseconds), and a script giving, for each upcoming gateway call, the
  time it takes and whether the venue answers with an error. A call with no
  script entry left succeeds at once. Every call issued is recorded in
  \<open>calls\<close>, in order; \<open>logged\<close> collects the errors the driver loops print
  with \<open>log.Printf\<close> instead of returning them.
\<close>

datatype call =
    ListOpenOrders string
  | CancelOrder string int
  | CreateOrder CreateOrderService
  | GetPositionRisk

record world =
  book :: "Order list"
  risk :: "PositionRisk list"
  clock :: int
  script :: "(int \<times> error option) list"
  calls :: "call list"
  nextID :: int
  marksReduceOnly :: bool
  logged :: "error list"

definition gateway :: "call \<Rightarrow> world \<Rightarrow> error option \<times> world" where
  "gateway c w =
     (case script w of
        [] \<Rightarrow> (None, w\<lparr>calls := calls w @ [c]\<rparr>)
      | (d, r) # rest \<Rightarrow>
          (r, w\<lparr>clock := clock w + d, script := rest, calls := calls w @ [c]\<rparr>))"

text \<open>What the venue answers to the next call: \<open>None\<close> if it accepts it.\<close>

definition nextAnswer :: "world \<Rightarrow> error option" where
  "nextAnswer w = (case script w of [] \<Rightarrow> None | (d, r) # rest \<Rightarrow> r)"

definition doListOpenOrders :: "string \<Rightarrow> world \<Rightarrow> (error + Order list) \<times> world" where
  "doListOpenOrders symbol w =
     (case gateway (ListOpenOrders symbol) w of
        (Some e, w') \<Rightarrow> (Inl e, w')
      | (None, w') \<Rightarrow> (Inr (book w'), w'))"

definition doCancelOrder :: "string \<Rightarrow> int \<Rightarrow> world \<Rightarrow> error option \<times> world" where
  "doCancelOrder symbol orderID w =
     (case gateway (CancelOrder symbol orderID) w of
        (Some e, w') \<Rightarrow> (Some e, w')
      | (None, w') \<Rightarrow> (None, w'\<lparr>book := filter (\<lambda>ord. OrderID ord \<noteq> orderID) (book w')\<rparr>))"

text \<open>
  An accepted order rests in the book under a fresh id, except a market order,
  which executes and does not rest. The request carries no reduce-only flag;
  whether the venue reports the new order as reduce-only is the world's
  \<open>marksReduceOnly\<close>.
\<close>

definition restingOrder :: "int \<Rightarrow> bool \<Rightarrow> CreateOrderService \<Rightarrow> Order" where
  "restingOrder oid ro req =
     \<lparr>OrderID = oid, Side = reqSide req,
      PositionSide = (case reqPositionSide req of None \<Rightarrow> PositionSideTypeBoth | Some ps \<Rightarrow> ps),
      Type = reqType req, OrigQuantity = reqQuantity req,
      Price = (case reqPrice req of None \<Rightarrow> 0 | Some p \<Rightarrow> p),
      StopPrice = (case reqStopPrice req of None \<Rightarrow> 0 | Some p \<Rightarrow> p),
      ReduceOnly = ro\<rparr>"

definition doCreateOrder :: "CreateOrderService \<Rightarrow> world \<Rightarrow> error option \<times> world" where
  "doCreateOrder req w =
     (case gateway (CreateOrder req) w of
        (Some e, w') \<Rightarrow> (Some e, w')
      | (None, w') \<Rightarrow>
          (None,
           if reqType req = OrderTypeMarket then w'
           else w'\<lparr>book := book w' @ [restingOrder (nextID w') (marksReduceOnly w') req],
                   nextID := nextID w' + 1\<rparr>))"

definition doGetPositionRisk :: "world \<Rightarrow> (error + PositionRisk list) \<times> world" where
  "doGetPositionRisk w =
     (case gateway GetPositionRisk w of
        (Some e, w') \<Rightarrow> (Inl e, w')
      | (None, w') \<Rightarrow> (Inr (risk w'), w'))"

definition time_Second :: int where
  "time_Second = 1000000000"

definition time_Sleep :: "int \<Rightarrow> world \<Rightarrow> world" where
  "time_Sleep d w = w\<lparr>clock := clock w + d\<rparr>"

section \<open>The trader's own state\<close>

text \<open>
  \<open>Trader\<close> in \<open>trader.go\<close> and \<open>TraderCLI\<close> in \<open>part_003\<close> have these four maps
  (beside the client); \<open>TraderCLI\<close> in \<open>part_000\<close> .. \<open>part_002\<close> has the first
  two only and the functions of those variants leave the other two alone.
\<close>

record Trader =
  maxProfit :: "string \<rightharpoonup> real"
  positions :: "string \<rightharpoonup> real"
  lastPosition :: "string \<rightharpoonup> PositionRisk"
  lastUpdate :: "string \<rightharpoonup> int"

definition NewTrader :: Trader where
  "NewTrader = \<lparr>maxProfit = Map.empty, positions = Map.empty,
                lastPosition = Map.empty, lastUpdate = Map.empty\<rparr>"

section \<open>The library: \<open>pkg/trading/trader.go\<close>\<close>

text \<open>The closing side of a position, as every placement in the source picks it.\<close>

definition closingSide :: "real \<Rightarrow> SideType \<times> PositionSideType" where
  "closingSide amt =
     (if amt < 0 then (SideTypeBuy, PositionSideTypeShort)
      else (SideTypeSell, PositionSideTypeLong))"

definition SetStopLoss :: "string \<Rightarrow> PositionRisk \<Rightarrow> real \<Rightarrow> world \<Rightarrow> error option \<times> world" where
  "SetStopLoss symbol position stopPrice w =
     (let amt = PositionAmt position
      in if amt = 0 then (None, w)
         else doCreateOrder
                \<lparr>reqSymbol = symbol, reqSide = fst (closingSide amt),
                 reqPositionSide = Some (snd (closingSide amt)),
                 reqType = OrderTypeStopMarket, reqTimeInForce = None,
                 reqQuantity = Sprintf_f 4 \<bar>amt\<bar>, reqPrice = None,
                 reqStopPrice = Some (Sprintf_f 2 stopPrice), reqWorkingType = None\<rparr> w)"

definition SetTakeProfit :: "string \<Rightarrow> PositionRisk \<Rightarrow> real \<Rightarrow> world \<Rightarrow> error option \<times> world" where
  "SetTakeProfit symbol position price w =
     (let amt = PositionAmt position
      in if amt = 0 then (None, w)
         else doCreateOrder
                \<lparr>reqSymbol = symbol, reqSide = fst (closingSide amt),
                 reqPositionSide = Some (snd (closingSide amt)),
                 reqType = OrderTypeLimit, reqTimeInForce = Some TimeInForceTypeGTC,
                 reqQuantity = Sprintf_f 4 \<bar>amt\<bar>, reqPrice = Some (Sprintf_f 2 price),
                 reqStopPrice = None, reqWorkingType = None\<rparr> w)"

text \<open>
  \<open>GetPosition\<close>. \<open>cachedPosition\<close> is the test at the head of the function: the
  cached snapshot, if both maps have the symbol and the entry is younger than
  five seconds.
\<close>

definition cachedPosition :: "string \<Rightarrow> Trader \<Rightarrow> world \<Rightarrow> PositionRisk option" where
  "cachedPosition symbol t w =
     (case lastPosition t symbol of
        None \<Rightarrow> None
      | Some lastPos \<Rightarrow>
          (case lastUpdate t symbol of
             None \<Rightarrow> None
           | Some lu \<Rightarrow> if clock w - lu < 5 * time_Second then Some lastPos else None))"

definition flatPosition :: "string \<Rightarrow> PositionRisk" where
  "flatPosition symbol =
     \<lparr>Symbol = symbol, PositionAmt = 0, EntryPrice = 0, UnRealizedProfit = 0\<rparr>"

definition GetPosition ::
  "string \<Rightarrow> Trader \<Rightarrow> world \<Rightarrow> (error + PositionRisk) \<times> Trader \<times> world" where
  "GetPosition symbol t w =
     (case cachedPosition symbol t w of
        Some lastPos \<Rightarrow> (Inr lastPos, t, w)
      | None \<Rightarrow>
          (case doGetPositionRisk w of
             (Inl err, w') \<Rightarrow> (Inl err, t, w')
           | (Inr ps, w') \<Rightarrow>
               (case find (\<lambda>p. Symbol p = symbol) ps of
                  Some p \<Rightarrow>
                    (Inr p,
                     t\<lparr>lastPosition := (lastPosition t)(symbol \<mapsto> p),
                       lastUpdate := (lastUpdate t)(symbol \<mapsto> clock w')\<rparr>,
                     w')
                | None \<Rightarrow>
                    (Inl PositionNotFound,
                     t\<lparr>lastPosition := (lastPosition t)(symbol \<mapsto> flatPosition symbol),
                       lastUpdate := (lastUpdate t)(symbol \<mapsto> clock w')\<rparr>,
                     w'))))"

section \<open>The command-line variants: shared pieces\<close>

text \<open>A read of a Go \<open>map[string]float64\<close>: the zero value when the key is absent.\<close>

definition lookup0 :: "(string \<rightharpoonup> real) \<Rightarrow> string \<Rightarrow> real" where
  "lookup0 m k = (case m k of None \<Rightarrow> 0 | Some v \<Rightarrow> v)"

text \<open>
  The three requests the variants assemble. The stop-loss and take-profit
  placements choose the side with \<open>if amt > 0\<close>, the market close with
  \<open>if amt < 0\<close>, as the source does; \<open>wt\<close> is the working type, set by
  \<open>part_003\<close> only.
\<close>

definition stopLossRequest :: "real \<Rightarrow> real \<Rightarrow> string option \<Rightarrow> CreateOrderService" where
  "stopLossRequest amt stopPrice wt =
     \<lparr>reqSymbol = ''SOLUSDC'',
      reqSide = (if 0 < amt then SideTypeSell else SideTypeBuy),
      reqPositionSide = Some (if 0 < amt then PositionSideTypeLong else PositionSideTypeShort),
      reqType = OrderTypeStopMarket, reqTimeInForce = None,
      reqQuantity = Sprintf_f 4 \<bar>amt\<bar>, reqPrice = None,
      reqStopPrice = Some (Sprintf_f 2 stopPrice), reqWorkingType = wt\<rparr>"

definition takeProfitRequest :: "real \<Rightarrow> real \<Rightarrow> string option \<Rightarrow> CreateOrderService" where
  "takeProfitRequest amt price wt =
     \<lparr>reqSymbol = ''SOLUSDC'',
      reqSide = (if 0 < amt then SideTypeSell else SideTypeBuy),
      reqPositionSide = Some (if 0 < amt then PositionSideTypeLong else PositionSideTypeShort),
      reqType = OrderTypeLimit, reqTimeInForce = Some TimeInForceTypeGTC,
      reqQuantity = Sprintf_f 4 \<bar>amt\<bar>, reqPrice = Some (Sprintf_f 2 price),
      reqStopPrice = None, reqWorkingType = wt\<rparr>"

definition marketCloseRequest :: "real \<Rightarrow> CreateOrderService" where
  "marketCloseRequest amt =
     \<lparr>reqSymbol = ''SOLUSDC'',
      reqSide = (if amt < 0 then SideTypeBuy else SideTypeSell),
      reqPositionSide = Some (if amt < 0 then PositionSideTypeShort else PositionSideTypeLong),
      reqType = OrderTypeMarket, reqTimeInForce = None,
      reqQuantity = Sprintf_f 4 \<bar>amt\<bar>, reqPrice = None,
      reqStopPrice = None, reqWorkingType = None\<rparr>"

text \<open>
  The loop of \<open>cancelAllTPSL\<close>: one cancel call for each listed order the
  variant selects; a failed cancel is printed and the loop goes on.
\<close>

fun cancelEach :: "(Order \<Rightarrow> bool) \<Rightarrow> Order list \<Rightarrow> world \<Rightarrow> world" where
  "cancelEach sel [] w = w"
| "cancelEach sel (ord # rest) w =
     (if sel ord then cancelEach sel rest (snd (doCancelOrder ''SOLUSDC'' (OrderID ord) w))
      else cancelEach sel rest w)"

text \<open>The quantity test \<open>math.Abs(qty - math.Abs(amt)) <= 0.0001\<close>.\<close>

definition qtyMatches :: "real \<Rightarrow> Order \<Rightarrow> bool" where
  "qtyMatches amt ord \<longleftrightarrow> \<bar>OrigQuantity ord - \<bar>amt\<bar>\<bar> \<le> 0.0001"

section \<open>Variants \<open>part_000\<close> and \<open>part_001\<close>\<close>

text \<open>\<open>cancelAllTPSL\<close>, the same text in both: every limit or stop-market order.\<close>

definition cancelAllTPSL_p0 :: "world \<Rightarrow> error option \<times> world" where
  "cancelAllTPSL_p0 w =
     (case doListOpenOrders ''SOLUSDC'' w of
        (Inl err, w1) \<Rightarrow> (Some (ListOrdersFailed err), w1)
      | (Inr orders, w1) \<Rightarrow>
          (None,
           cancelEach (\<lambda>ord. Type ord = OrderTypeLimit \<or> Type ord = OrderTypeStopMarket)
             orders w1))"

text \<open>\<open>part_000\<close>: \<open>checkAndSetStopLoss\<close>, with its validity test on type and quantity.\<close>

definition hasValidStopLoss_p0 :: "real \<Rightarrow> Order list \<Rightarrow> bool" where
  "hasValidStopLoss_p0 amt orders =
     list_ex (\<lambda>ord. Type ord = OrderTypeStopMarket \<and> qtyMatches amt ord) orders"

definition checkAndSetStopLoss_p0 ::
  "PositionRisk \<Rightarrow> Trader \<Rightarrow> world \<Rightarrow> error option \<times> Trader \<times> world" where
  "checkAndSetStopLoss_p0 position t w =
     (let amt = PositionAmt position; entryPrice = EntryPrice position
      in if amt = 0 then (None, t, w)
         else
           (case doListOpenOrders ''SOLUSDC'' w of
              (Inl err, w1) \<Rightarrow> (Some (ListOrdersFailed err), t, w1)
            | (Inr orders, w1) \<Rightarrow>
                if hasValidStopLoss_p0 amt orders then (None, t, w1)
                else
                  (case cancelAllTPSL_p0 w1 of
                     (Some err, w2) \<Rightarrow> (Some (CancelOrdersFailed err), t, w2)
                   | (None, w2) \<Rightarrow>
                       (let w3 = time_Sleep (2 * time_Second) w2;
                            stopPrice = roundToTickSize
                              (if 0 < amt then entryPrice - 1 else entryPrice + 1) 0.01
                        in case doCreateOrder (stopLossRequest amt stopPrice None) w3 of
                             (Some err, w4) \<Rightarrow> (Some (CreateStopLossFailed err), t, w4)
                           | (None, w4) \<Rightarrow> (None, t, w4)))))"

text \<open>
  \<open>part_001\<close>: stop-loss and take-profit are checked by two functions, each
  comparing the total resting quantity of its order type with the position and
  looking for an order of its type on the closing side.
\<close>

definition hasStopLoss_p1 :: "real \<Rightarrow> Order list \<Rightarrow> bool" where
  "hasStopLoss_p1 amt orders =
     list_ex (\<lambda>ord.
        (0 < amt \<and> Side ord = SideTypeSell \<and> Type ord = OrderTypeStopMarket) \<or>
        (amt < 0 \<and> Side ord = SideTypeBuy \<and> Type ord = OrderTypeStopMarket)) orders"

definition hasTakeProfit_p1 :: "real \<Rightarrow> Order list \<Rightarrow> bool" where
  "hasTakeProfit_p1 amt orders =
     list_ex (\<lambda>ord.
        (0 < amt \<and> Side ord = SideTypeSell \<and> Type ord = OrderTypeLimit) \<or>
        (amt < 0 \<and> Side ord = SideTypeBuy \<and> Type ord = OrderTypeLimit)) orders"

definition totalQty :: "OrderType \<Rightarrow> Order list \<Rightarrow> real" where
  "totalQty ty orders = sum_list (map OrigQuantity (filter (\<lambda>ord. Type ord = ty) orders))"

definition checkAndSetStopLoss_p1 ::
  "PositionRisk \<Rightarrow> Trader \<Rightarrow> world \<Rightarrow> error option \<times> Trader \<times> world" where
  "checkAndSetStopLoss_p1 position t w =
     (let amt = PositionAmt position
      in if amt = 0 then (None, t, w)
         else
           (case doListOpenOrders ''SOLUSDC'' w of
              (Inl err, w1) \<Rightarrow> (Some (ListOrdersFailed err), t, w1)
            | (Inr orders, w1) \<Rightarrow>
                (case (if 0.0001 < \<bar>totalQty OrderTypeStopMarket orders - \<bar>amt\<bar>\<bar>
                       then (case cancelAllTPSL_p0 w1 of
                               (Some err, w2) \<Rightarrow> (Some (CancelOrdersFailed err), t, w2)
                             | (None, w2) \<Rightarrow>
                                 (None, t\<lparr>positions := (positions t)(''SOLUSDC'' \<mapsto> amt)\<rparr>,
                                  time_Sleep time_Second w2))
                       else (None, t, w1)) of
                   (Some err, t2, w2) \<Rightarrow> (Some err, t2, w2)
                 | (None, t2, w2) \<Rightarrow>
                     if hasStopLoss_p1 amt orders then (None, t2, w2)
                     else
                       (let entryPrice = EntryPrice position;
                            stopPrice = roundToTickSize
                              (if 0 < amt then entryPrice - 1 else entryPrice + 1) 0.01
                        in case doCreateOrder (stopLossRequest amt stopPrice None) w2 of
                             (Some err, w3) \<Rightarrow> (Some (CreateStopLossFailed err), t2, w3)
                           | (None, w3) \<Rightarrow> (None, t2, w3)))))"

definition checkAndSetTakeProfit_p1 ::
  "PositionRisk \<Rightarrow> Trader \<Rightarrow> world \<Rightarrow> error option \<times> Trader \<times> world" where
  "checkAndSetTakeProfit_p1 position t w =
     (let amt = PositionAmt position
      in if amt = 0 then (None, t, w)
         else
           (case doListOpenOrders ''SOLUSDC'' w of
              (Inl err, w1) \<Rightarrow> (Some (ListOrdersFailed err), t, w1)
            | (Inr orders, w1) \<Rightarrow>
                (case (if 0.0001 < \<bar>totalQty OrderTypeLimit orders - \<bar>amt\<bar>\<bar>
                       then (case cancelAllTPSL_p0 w1 of
                               (Some err, w2) \<Rightarrow> (Some (CancelOrdersFailed err), w2)
                             | (None, w2) \<Rightarrow> (None, time_Sleep time_Second w2))
                       else (None, w1)) of
                   (Some err, w2) \<Rightarrow> (Some err, t, w2)
                 | (None, w2) \<Rightarrow>
                     if hasTakeProfit_p1 amt orders then (None, t, w2)
                     else
                       (let entryPrice = EntryPrice position;
                            price = roundToTickSize
                              (if 0 < amt then entryPrice + 2 else entryPrice - 2) 0.01
                        in case doCreateOrder (takeProfitRequest amt price None) w2 of
                             (Some err, w3) \<Rightarrow> (Some (CreateTakeProfitFailed err), t, w3)
                           | (None, w3) \<Rightarrow> (None, t, w3)))))"

text \<open>
  \<open>part_001\<close>: the protective-exit monitor (the same text is in
  \<open>trader_ui.go\<close>). \<open>updateMaxProfit_p1\<close> is its high-water-mark update,
  which tells an absent entry from a stored one.
\<close>

definition updateMaxProfit_p1 :: "string \<Rightarrow> real \<Rightarrow> Trader \<Rightarrow> Trader" where
  "updateMaxProfit_p1 symbol unPnl t =
     (case maxProfit t symbol of
        None \<Rightarrow> t\<lparr>maxProfit := (maxProfit t)(symbol \<mapsto> unPnl)\<rparr>
      | Some m \<Rightarrow>
          if m < unPnl then t\<lparr>maxProfit := (maxProfit t)(symbol \<mapsto> unPnl)\<rparr> else t)"

definition checkProtectiveStopProfit_p1 ::
  "PositionRisk \<Rightarrow> Trader \<Rightarrow> world \<Rightarrow> error option \<times> Trader \<times> world" where
  "checkProtectiveStopProfit_p1 position t w =
     (let amt = PositionAmt position
      in if amt = 0
         then (None, t\<lparr>maxProfit := (maxProfit t)(Symbol position := None)\<rparr>, w)
         else
           (let unPnl = UnRealizedProfit position;
                t1 = updateMaxProfit_p1 (Symbol position) unPnl t;
                maxP = lookup0 (maxProfit t1) (Symbol position)
            in if 200 \<le> maxP \<and> unPnl \<le> maxP * 0.5
               then (case doCreateOrder (marketCloseRequest amt) w of
                       (Some err, w1) \<Rightarrow> (Some (ProtectiveCloseFailed err), t1, w1)
                     | (None, w1) \<Rightarrow>
                         (None, t1\<lparr>maxProfit := (maxProfit t1)(Symbol position := None)\<rparr>, w1))
               else (None, t1, w)))"

text \<open>
  The monitor run over a sequence of position snapshots, one call for each, the
  trader and the world passed on; the error a call returns is dropped.
\<close>

definition observe_p1 :: "PositionRisk list \<Rightarrow> Trader \<times> world \<Rightarrow> Trader \<times> world" where
  "observe_p1 ps tw =
     fold (\<lambda>p tw. snd (checkProtectiveStopProfit_p1 p (fst tw) (snd tw))) ps tw"

text \<open>
  \<open>part_001\<close>: one turn of the loop of \<open>run\<close>. An error of a check is printed
  and the next check runs.
\<close>

definition logError :: "error option \<times> Trader \<times> world \<Rightarrow> Trader \<times> world" where
  "logError r =
     (case r of
        (None, t, w) \<Rightarrow> (t, w)
      | (Some err, t, w) \<Rightarrow> (t, w\<lparr>logged := logged w @ [err]\<rparr>))"

definition handlePosition_p1 :: "PositionRisk \<Rightarrow> Trader \<times> world \<Rightarrow> Trader \<times> world" where
  "handlePosition_p1 p tw =
     (if Symbol p = ''SOLUSDC'' \<and> PositionAmt p \<noteq> 0
      then (let (t1, w1) = logError (checkProtectiveStopProfit_p1 p (fst tw) (snd tw));
                (t2, w2) = logError (checkAndSetTakeProfit_p1 p t1 w1)
            in logError (checkAndSetStopLoss_p1 p t2 w2))
      else tw)"

definition run_tick_p1 :: "Trader \<Rightarrow> world \<Rightarrow> Trader \<times> world" where
  "run_tick_p1 t w =
     (case doGetPositionRisk w of
        (Inl err, w1) \<Rightarrow> (t, w1\<lparr>logged := logged w1 @ [err]\<rparr>)
      | (Inr ps, w1) \<Rightarrow> fold handlePosition_p1 ps (t, w1))"

section \<open>Variant \<open>part_002\<close>: joint reset\<close>

text \<open>\<open>cancelAllTPSL\<close>: reduce-only limit orders and stop-market orders.\<close>

definition isTPSL :: "Order \<Rightarrow> bool" where
  "isTPSL ord \<longleftrightarrow>
     (Type ord = OrderTypeLimit \<and> ReduceOnly ord) \<or> Type ord = OrderTypeStopMarket"

definition cancelAllTPSL_p2 :: "world \<Rightarrow> error option \<times> world" where
  "cancelAllTPSL_p2 w =
     (case doListOpenOrders ''SOLUSDC'' w of
        (Inl err, w1) \<Rightarrow> (Some (ListOrdersFailed err), w1)
      | (Inr orders, w1) \<Rightarrow> (None, cancelEach isTPSL orders w1))"

text \<open>
  The validity scan of \<open>checkProtectiveStopProfit\<close> (the same text in
  \<open>part_000\<close>, \<open>part_002\<close> and \<open>part_003\<close>): an order of matching quantity is a
  valid stop-loss if it is a stop-market order and a valid take-profit if it is
  a limit order.
\<close>

definition hasValidStopLoss :: "real \<Rightarrow> Order list \<Rightarrow> bool" where
  "hasValidStopLoss amt orders =
     list_ex (\<lambda>ord. qtyMatches amt ord \<and> Type ord = OrderTypeStopMarket) orders"

definition hasValidTakeProfit :: "real \<Rightarrow> Order list \<Rightarrow> bool" where
  "hasValidTakeProfit amt orders =
     list_ex (\<lambda>ord. qtyMatches amt ord \<and> Type ord = OrderTypeLimit) orders"

text \<open>The test \<open>!hasValidStopLoss || !hasValidTakeProfit\<close>: a leg is missing.\<close>

definition missingLeg :: "real \<Rightarrow> Order list \<Rightarrow> bool" where
  "missingLeg amt orders \<longleftrightarrow> \<not> hasValidStopLoss amt orders \<or> \<not> hasValidTakeProfit amt orders"

text \<open>
  The tail of \<open>checkProtectiveStopProfit\<close> in \<open>part_000\<close>, \<open>part_002\<close> and
  \<open>part_003\<close>: the high-water-mark update, which reads the map with the zero
  default and takes a stored 0 for no entry, and the drawdown exit.
\<close>

definition protectiveExit :: "PositionRisk \<Rightarrow> Trader \<Rightarrow> world \<Rightarrow> error option \<times> Trader \<times> world" where
  "protectiveExit position t w =
     (let amt = PositionAmt position; unPnl = UnRealizedProfit position;
          stored = lookup0 (maxProfit t) (Symbol position);
          bump = (stored = 0 \<or> stored < unPnl);
          t1 = (if bump then t\<lparr>maxProfit := (maxProfit t)(Symbol position \<mapsto> unPnl)\<rparr> else t);
          maxP = (if bump then unPnl else stored)
      in if 200 \<le> maxP \<and> unPnl \<le> maxP * 0.5
         then (case doCreateOrder (marketCloseRequest amt) w of
                 (Some err, w1) \<Rightarrow> (Some (ProtectiveCloseFailed err), t1, w1)
               | (None, w1) \<Rightarrow>
                   (None, t1\<lparr>maxProfit := (maxProfit t1)(Symbol position := None)\<rparr>, w1))
         else (None, t1, w))"

text \<open>
  The joint placement of \<open>part_002\<close>: the stop-loss, then the take-profit;
  the prices are not passed through \<open>roundToTickSize\<close> here, only formatted.
\<close>

definition placeBoth_p2 :: "PositionRisk \<Rightarrow> world \<Rightarrow> error option \<times> world" where
  "placeBoth_p2 position w =
     (let amt = PositionAmt position; entryPrice = EntryPrice position;
          stopPrice = (if 0 < amt then entryPrice - 1 else entryPrice + 1)
      in case doCreateOrder (stopLossRequest amt stopPrice None) w of
           (Some err, w1) \<Rightarrow> (Some (CreateStopLossFailed err), w1)
         | (None, w1) \<Rightarrow>
             (let price = (if 0 < amt then entryPrice + 2 else entryPrice - 2)
              in case doCreateOrder (takeProfitRequest amt price None) w1 of
                   (Some err, w2) \<Rightarrow> (Some (CreateTakeProfitFailed err), w2)
                 | (None, w2) \<Rightarrow> (None, w2)))"

definition checkProtectiveStopProfit_p2 ::
  "PositionRisk \<Rightarrow> Trader \<Rightarrow> world \<Rightarrow> error option \<times> Trader \<times> world" where
  "checkProtectiveStopProfit_p2 position t w =
     (let amt = PositionAmt position
      in if amt = 0
         then (let t1 = t\<lparr>maxProfit := (maxProfit t)(Symbol position := None)\<rparr>
               in case cancelAllTPSL_p2 w of
                    (Some err, w1) \<Rightarrow> (Some (CancelOrdersFailed err), t1, w1)
                  | (None, w1) \<Rightarrow> (None, t1, w1))
         else
           (case doListOpenOrders ''SOLUSDC'' w of
              (Inl err, w1) \<Rightarrow> (Some (ListOrdersFailed err), t, w1)
            | (Inr orders, w1) \<Rightarrow>
                if missingLeg amt orders
                then (case cancelAllTPSL_p2 w1 of
                        (Some err, w2) \<Rightarrow> (Some (CancelOrdersFailed err), t, w2)
                      | (None, w2) \<Rightarrow>
                          (case placeBoth_p2 position (time_Sleep (2 * time_Second) w2) of
                             (Some err, w3) \<Rightarrow> (Some err, t, w3)
                           | (None, w3) \<Rightarrow> protectiveExit position t w3))
                else protectiveExit position t w1))"

section \<open>Variant \<open>part_003\<close>: selective cancel, independent top-up, position cache\<close>

text \<open>
  \<open>cancelAllTPSL(currentAmt)\<close>: with a non-zero \<open>currentAmt\<close> an order whose
  quantity matches the position is skipped.
\<close>

definition cancelAllTPSL_p3 :: "real \<Rightarrow> world \<Rightarrow> error option \<times> world" where
  "cancelAllTPSL_p3 currentAmt w =
     (case doListOpenOrders ''SOLUSDC'' w of
        (Inl err, w1) \<Rightarrow> (Some (ListOrdersFailed err), w1)
      | (Inr orders, w1) \<Rightarrow>
          (None,
           cancelEach (\<lambda>ord. isTPSL ord \<and> \<not> (currentAmt \<noteq> 0 \<and> qtyMatches currentAmt ord))
             orders w1))"

text \<open>
  The first part of \<open>checkProtectiveStopProfit\<close> for a non-flat position: if
  quantity or entry price differ from the remembered position, cancel and list
  again.
\<close>

definition relist_p3 ::
  "PositionRisk \<Rightarrow> Trader \<Rightarrow> Order list \<Rightarrow> world \<Rightarrow> (error + Order list) \<times> world" where
  "relist_p3 position t orders w =
     (let amt = PositionAmt position; entryPrice = EntryPrice position;
          lastAmt = (case lastPosition t ''SOLUSDC'' of None \<Rightarrow> 0 | Some lp \<Rightarrow> PositionAmt lp);
          lastEntryPrice = (case lastPosition t ''SOLUSDC'' of None \<Rightarrow> 0 | Some lp \<Rightarrow> EntryPrice lp)
      in if 0.0001 < \<bar>lastAmt - amt\<bar> \<or> 0.01 < \<bar>lastEntryPrice - entryPrice\<bar>
         then (case cancelAllTPSL_p3 amt w of
                 (Some err, w1) \<Rightarrow> (Inl (CancelOrdersFailed err), w1)
               | (None, w1) \<Rightarrow>
                   (case doListOpenOrders ''SOLUSDC'' (time_Sleep (1 * time_Second) w1) of
                      (Inl err, w2) \<Rightarrow> (Inl (ListOrdersFailed err), w2)
                    | (Inr orders', w2) \<Rightarrow> (Inr orders', w2)))
         else (Inr orders, w))"

text \<open>
  The top-up: only the leg the scan found missing is placed, the stop-loss
  first. (The source tests \<open>amt == 0\<close> once more before the top-up; on this
  path \<open>amt\<close> is not zero and the test never fires, so it is left out.)
\<close>

definition placeMissing_p3 :: "PositionRisk \<Rightarrow> Order list \<Rightarrow> world \<Rightarrow> error option \<times> world" where
  "placeMissing_p3 position orders w =
     (let amt = PositionAmt position; entryPrice = EntryPrice position
      in case (if \<not> hasValidStopLoss amt orders
               then (case doCreateOrder
                            (stopLossRequest amt
                               (if 0 < amt then entryPrice - 1 else entryPrice + 1)
                               (Some ''CONTRACT_PRICE'')) w of
                       (Some err, w1) \<Rightarrow> (Some (CreateStopLossFailed err), w1)
                     | (None, w1) \<Rightarrow> (None, w1))
               else (None, w)) of
           (Some err, w1) \<Rightarrow> (Some err, w1)
         | (None, w1) \<Rightarrow>
             if \<not> hasValidTakeProfit amt orders
             then (case doCreateOrder
                          (takeProfitRequest amt
                             (if 0 < amt then entryPrice + 2 else entryPrice - 2)
                             (Some ''CONTRACT_PRICE'')) w1 of
                     (Some err, w2) \<Rightarrow> (Some (CreateTakeProfitFailed err), w2)
                   | (None, w2) \<Rightarrow> (None, w2))
             else (None, w1))"

definition checkProtectiveStopProfit_p3 ::
  "PositionRisk \<Rightarrow> Trader \<Rightarrow> world \<Rightarrow> error option \<times> Trader \<times> world" where
  "checkProtectiveStopProfit_p3 position t w =
     (let amt = PositionAmt position
      in if amt = 0
         then (let t1 = t\<lparr>maxProfit := (maxProfit t)(Symbol position := None)\<rparr>
               in case cancelAllTPSL_p3 0 w of
                    (Some err, w1) \<Rightarrow> (Some (CancelOrdersFailed err), t1, w1)
                  | (None, w1) \<Rightarrow> (None, t1, w1))
         else
           (case doListOpenOrders ''SOLUSDC'' w of
              (Inl err, w1) \<Rightarrow> (Some (ListOrdersFailed err), t, w1)
            | (Inr orders, w1) \<Rightarrow>
                (case relist_p3 position t orders w1 of
                   (Inl err, w2) \<Rightarrow> (Some err, t, w2)
                 | (Inr orders', w2) \<Rightarrow>
                     (case placeMissing_p3 position orders' w2 of
                        (Some err, w3) \<Rightarrow> (Some err, t, w3)
                      | (None, w3) \<Rightarrow> protectiveExit position t w3))))"

text \<open>
  One turn of the loop of \<open>run\<close> in \<open>part_003\<close>: the position comes from the
  cache or from the listing (the first entry for the symbol with a non-zero
  amount, else a synthesized flat position), and is then checked.
\<close>

definition currentPosition_p3 :: "Trader \<Rightarrow> world \<Rightarrow> (error + PositionRisk) \<times> Trader \<times> world" where
  "currentPosition_p3 t w =
     (case cachedPosition ''SOLUSDC'' t w of
        Some lastPos \<Rightarrow> (Inr lastPos, t, w)
      | None \<Rightarrow>
          (case doGetPositionRisk w of
             (Inl err, w1) \<Rightarrow> (Inl err, t, w1)
           | (Inr ps, w1) \<Rightarrow>
               (let p = (case find (\<lambda>p. PositionAmt p \<noteq> 0 \<and> Symbol p = ''SOLUSDC'') ps of
                           Some p \<Rightarrow> p
                         | None \<Rightarrow> flatPosition ''SOLUSDC'')
                in (Inr p,
                    t\<lparr>lastPosition := (lastPosition t)(''SOLUSDC'' \<mapsto> p),
                      lastUpdate := (lastUpdate t)(''SOLUSDC'' \<mapsto> clock w1)\<rparr>,
                    w1))))"

definition run_tick_p3 :: "Trader \<Rightarrow> world \<Rightarrow> Trader \<times> world" where
  "run_tick_p3 t w =
     (case currentPosition_p3 t w of
        (Inl err, t1, w1) \<Rightarrow> (t1, time_Sleep (5 * time_Second) (w1\<lparr>logged := logged w1 @ [err]\<rparr>))
      | (Inr p, t1, w1) \<Rightarrow>
          (let (t2, w2) = logError (checkProtectiveStopProfit_p3 p t1 w1)
           in (t2, time_Sleep time_Second w2)))"

section \<open>Observing a run\<close>

text \<open>The calls a run has added to the record.\<close>

definition issued :: "world \<Rightarrow> world \<Rightarrow> call list" where
  "issued w w' = drop (length (calls w)) (calls w')"

text \<open>
  The placement requests among recorded calls, accepted by the venue or not,
  and those a run has added.
\<close>

fun createRequests :: "call list \<Rightarrow> CreateOrderService list" where
  "createRequests [] = []"
| "createRequests (CreateOrder req # cs) = req # createRequests cs"
| "createRequests (c # cs) = createRequests cs"

definition placed :: "world \<Rightarrow> world \<Rightarrow> CreateOrderService list" where
  "placed w w' = drop (length (createRequests (calls w))) (createRequests (calls w'))"

section \<open>Sample inputs\<close>

text \<open>A venue with no orders that accepts every call, and a long position of 1 at 100.\<close>

definition quietWorld :: world where
  "quietWorld =
     \<lparr>book = [], risk = [], clock = 0, script = [], calls = [], nextID = 1,
      marksReduceOnly = False, logged = []\<rparr>"

definition longPosition :: PositionRisk where
  "longPosition =
     \<lparr>Symbol = ''SOLUSDC'', PositionAmt = 1, EntryPrice = 100, UnRealizedProfit = 0\<rparr>"

text \<open>
  A trader whose high-water mark for the symbol stands at 300, the long position
  seen again with an unrealized profit of 140, and a venue that refuses the
  next call.
\<close>

definition peakTrader :: Trader where
  "peakTrader = NewTrader\<lparr>maxProfit := [''SOLUSDC'' \<mapsto> 300]\<rparr>"

definition withProfit :: "real \<Rightarrow> PositionRisk" where
  "withProfit u = longPosition\<lparr>UnRealizedProfit := u\<rparr>"

definition refusingWorld :: world where
  "refusingWorld = quietWorld\<lparr>script := [(0, Some (VenueError 1))]\<rparr>"

text \<open>
  A resting stop-market order of the position's quantity on the buy side, with
  its trigger above the entry price: the opening side for the long position.
\<close>

definition wrongSideStop :: Order where
  "wrongSideStop =
     \<lparr>OrderID = 7, Side = SideTypeBuy, PositionSide = PositionSideTypeShort,
      Type = OrderTypeStopMarket, OrigQuantity = 1, Price = 0, StopPrice = 150,
      ReduceOnly = False\<rparr>"

text \<open>
  A resting sell stop of the position's quantity whose trigger, 150, lies above
  the entry price of the long position.
\<close>

definition highStop :: Order where
  "highStop =
     \<lparr>OrderID = 8, Side = SideTypeSell, PositionSide = PositionSideTypeLong,
      Type = OrderTypeStopMarket, OrigQuantity = 1, Price = 0, StopPrice = 150,
      ReduceOnly = True\<rparr>"

text \<open>Resting closing orders of the long position, by id and quantity.\<close>

definition sellStop :: "int \<Rightarrow> real \<Rightarrow> Order" where
  "sellStop oid qty =
     \<lparr>OrderID = oid, Side = SideTypeSell, PositionSide = PositionSideTypeLong,
      Type = OrderTypeStopMarket, OrigQuantity = qty, Price = 0, StopPrice = 99,
      ReduceOnly = True\<rparr>"

definition sellLimit :: "int \<Rightarrow> real \<Rightarrow> Order" where
  "sellLimit oid qty =
     \<lparr>OrderID = oid, Side = SideTypeSell, PositionSide = PositionSideTypeLong,
      Type = OrderTypeLimit, OrigQuantity = qty, Price = 102, StopPrice = 0,
      ReduceOnly = True\<rparr>"

section \<open>The position cache and the library placements\<close>

lemma cachedPosition_NewTrader: "cachedPosition symbol NewTrader w = None"
  by (simp add: cachedPosition_def NewTrader_def)

text \<open>
  C9. For a position whose quantity is zero, \<open>SetStopLoss\<close> and
  \<open>SetTakeProfit\<close> return no error and leave the world as it is: no call is
  issued to the venue.
\<close>

theorem zero_quantity_places_nothing:
  "PositionAmt position = 0 \<Longrightarrow>
     SetStopLoss symbol position stopPrice w = (None, w) \<and>
     SetTakeProfit symbol position price w = (None, w)"
  by (simp add: SetStopLoss_def SetTakeProfit_def)

theorem zero_quantity_places_nothing_witness:
  "PositionAmt (flatPosition ''SOLUSDC'') = 0 \<and>
   SetStopLoss ''SOLUSDC'' (flatPosition ''SOLUSDC'') 99 quietWorld = (None, quietWorld) \<and>
   SetTakeProfit ''SOLUSDC'' (flatPosition ''SOLUSDC'') 102 quietWorld = (None, quietWorld)"
proof -
  have flat: "PositionAmt (flatPosition ''SOLUSDC'') = 0"
    by (simp add: flatPosition_def)
  from zero_quantity_places_nothing [OF flat, of "''SOLUSDC''" 99 quietWorld 102] flat
  show ?thesis by simp
qed

text \<open>
  C8. When the cache has no fresh entry, so that \<open>GetPosition\<close> calls the
  gateway, and the gateway answers with an error, the trader (both cache maps
  included) is returned unchanged and the caller gets the gateway's error; the
  world has only aged by the call.
\<close>

theorem GetPosition_gateway_error:
  assumes "cachedPosition symbol t w = None"
    and "script w = (d, Some err) # rest"
  shows "GetPosition symbol t w =
           (Inl err, t,
            w\<lparr>clock := clock w + d, script := rest, calls := calls w @ [GetPositionRisk]\<rparr>)"
  using assms by (simp add: GetPosition_def doGetPositionRisk_def gateway_def)

theorem GetPosition_gateway_error_witness:
  "cachedPosition ''SOLUSDC'' NewTrader (quietWorld\<lparr>script := [(3, Some (VenueError 1))]\<rparr>) = None \<and>
   fst (GetPosition ''SOLUSDC'' NewTrader (quietWorld\<lparr>script := [(3, Some (VenueError 1))]\<rparr>))
     = Inl (VenueError 1) \<and>
   fst (snd (GetPosition ''SOLUSDC'' NewTrader (quietWorld\<lparr>script := [(3, Some (VenueError 1))]\<rparr>)))
     = NewTrader"
proof -
  let ?w = "quietWorld\<lparr>script := [(3, Some (VenueError 1))]\<rparr>"
  have stale: "cachedPosition ''SOLUSDC'' NewTrader ?w = None"
    by (rule cachedPosition_NewTrader)
  have scr: "script ?w = (3, Some (VenueError 1)) # []"
    by simp
  from GetPosition_gateway_error [OF stale scr] stale show ?thesis by simp
qed

lemma GetPosition_cached:
  "cachedPosition symbol t w = Some p \<Longrightarrow> GetPosition symbol t w = (Inr p, t, w)"
  by (simp add: GetPosition_def)

lemma GetPosition_absent:
  assumes "cachedPosition symbol t w = None"
    and "fst (gateway GetPositionRisk w) = None"
    and "\<forall>p \<in> set (risk w). Symbol p \<noteq> symbol"
  shows "fst (GetPosition symbol t w) = Inl PositionNotFound"
    and "lastPosition (fst (snd (GetPosition symbol t w))) symbol = Some (flatPosition symbol)"
    and "lastUpdate (fst (snd (GetPosition symbol t w))) symbol
           = Some (clock (snd (gateway GetPositionRisk w)))"
proof -
  have nf: "find (\<lambda>p. Symbol p = symbol) (risk w) = None"
    using assms(3) by (simp add: find_None_iff)
  have rk: "risk (snd (gateway GetPositionRisk w)) = risk w"
    by (simp add: gateway_def split: list.splits prod.splits)
  obtain w' where g: "gateway GetPositionRisk w = (None, w')"
    using assms(2) by (cases "gateway GetPositionRisk w") simp
  with rk have rk': "risk w' = risk w" by simp
  show "fst (GetPosition symbol t w) = Inl PositionNotFound"
    using assms(1) g nf rk' by (simp add: GetPosition_def doGetPositionRisk_def)
  show "lastPosition (fst (snd (GetPosition symbol t w))) symbol = Some (flatPosition symbol)"
    using assms(1) g nf rk' by (simp add: GetPosition_def doGetPositionRisk_def)
  show "lastUpdate (fst (snd (GetPosition symbol t w))) symbol
          = Some (clock (snd (gateway GetPositionRisk w)))"
    using assms(1) g nf rk' by (simp add: GetPosition_def doGetPositionRisk_def)
qed

text \<open>
  C7. With a fresh cache entry \<open>GetPosition\<close> returns it and issues no call.
  With a stale cache, an answering gateway and a listing that lacks the symbol,
  it stores the flat position under the current time, but what it returns is
  the error \<open>position not found\<close>, not the flat position.
\<close>

theorem GetPosition_absent_symbol_is_error:
  "fst (GetPosition ''SOLUSDC'' NewTrader quietWorld) = Inl PositionNotFound \<and>
   lastPosition (fst (snd (GetPosition ''SOLUSDC'' NewTrader quietWorld))) ''SOLUSDC''
     = Some (flatPosition ''SOLUSDC'') \<and>
   lastUpdate (fst (snd (GetPosition ''SOLUSDC'' NewTrader quietWorld))) ''SOLUSDC'' = Some 0 \<and>
   calls (snd (snd (GetPosition ''SOLUSDC'' NewTrader quietWorld))) = [GetPositionRisk]"
  by (simp add: GetPosition_def cachedPosition_def doGetPositionRisk_def gateway_def
      quietWorld_def NewTrader_def)

text \<open>
  The same situation in the loop of \<open>part_003\<close>: the synthesized flat position
  is what the loop goes on with. And one call later, inside five seconds,
  \<open>GetPosition\<close> itself returns the flat position it had just refused to return.
\<close>

lemma currentPosition_p3_absent_symbol:
  "fst (currentPosition_p3 NewTrader quietWorld) = Inr (flatPosition ''SOLUSDC'')"
  by (simp add: currentPosition_p3_def cachedPosition_NewTrader doGetPositionRisk_def
      gateway_def quietWorld_def Let_def)

lemma GetPosition_absent_symbol_second_call:
  "fst (GetPosition ''SOLUSDC''
          (fst (snd (GetPosition ''SOLUSDC'' NewTrader quietWorld)))
          (snd (snd (GetPosition ''SOLUSDC'' NewTrader quietWorld))))
     = Inr (flatPosition ''SOLUSDC'')"
  by (simp add: GetPosition_def cachedPosition_def doGetPositionRisk_def gateway_def
      quietWorld_def NewTrader_def time_Second_def)

section \<open>The protective-exit monitor of \<open>part_001\<close>\<close>

lemma gateway_calls: "calls (snd (gateway c w)) = calls w @ [c]"
  by (simp add: gateway_def split: list.splits prod.splits)

lemma gateway_answer: "fst (gateway c w) = nextAnswer w"
  by (simp add: gateway_def nextAnswer_def split: list.splits prod.splits)

lemma doCreateOrder_calls: "calls (snd (doCreateOrder req w)) = calls w @ [CreateOrder req]"
  using gateway_calls [of "CreateOrder req" w]
  by (cases "gateway (CreateOrder req) w") (auto simp: doCreateOrder_def split: option.splits)

lemma doCreateOrder_answer: "fst (doCreateOrder req w) = nextAnswer w"
  using gateway_answer [of "CreateOrder req" w]
  by (cases "gateway (CreateOrder req) w") (auto simp: doCreateOrder_def split: option.splits)

lemma maxProfit_updateMaxProfit_p1:
  "maxProfit (updateMaxProfit_p1 s u t) s
     = Some (case maxProfit t s of None \<Rightarrow> u | Some m \<Rightarrow> max m u)"
  by (auto simp: updateMaxProfit_p1_def max_def split: option.splits)

text \<open>
  What one call of the monitor does on a non-flat position, in terms of the
  high-water mark \<open>maxP\<close> after the observation.
\<close>

lemma checkProtectiveStopProfit_p1_nonflat:
  fixes p :: PositionRisk and t :: Trader and w :: world
  assumes "PositionAmt p \<noteq> 0"
  defines "maxP \<equiv> (case maxProfit t (Symbol p) of None \<Rightarrow> UnRealizedProfit p
                     | Some m \<Rightarrow> max m (UnRealizedProfit p))"
  defines "trig \<equiv> 200 \<le> maxP \<and> UnRealizedProfit p \<le> maxP * 0.5"
  defines "r \<equiv> checkProtectiveStopProfit_p1 p t w"
  shows "calls (snd (snd r)) =
           calls w @ (if trig then [CreateOrder (marketCloseRequest (PositionAmt p))] else [])"
    and "maxProfit (fst (snd r)) (Symbol p) =
           (if trig \<and> nextAnswer w = None then None else Some maxP)"
    and "fst r = (if trig then map_option ProtectiveCloseFailed (nextAnswer w) else None)"
proof -
  define t1 where "t1 = updateMaxProfit_p1 (Symbol p) (UnRealizedProfit p) t"
  define req where "req = marketCloseRequest (PositionAmt p)"
  have mp: "maxProfit t1 (Symbol p) = Some maxP"
    by (simp add: t1_def maxP_def maxProfit_updateMaxProfit_p1)
  then have l0: "lookup0 (maxProfit t1) (Symbol p) = maxP"
    by (simp add: lookup0_def)
  obtain a w1 where cr: "doCreateOrder req w = (a, w1)"
    by (cases "doCreateOrder req w")
  have a: "nextAnswer w = a"
    using doCreateOrder_answer [of req w] cr by simp
  have c: "calls w1 = calls w @ [CreateOrder req]"
    using doCreateOrder_calls [of req w] cr by simp
  have r: "r = (if trig
                then (case a of Some err \<Rightarrow> (Some (ProtectiveCloseFailed err), t1, w1)
                      | None \<Rightarrow> (None, t1\<lparr>maxProfit := (maxProfit t1)(Symbol p := None)\<rparr>, w1))
                else (None, t1, w))"
    using assms(1) l0 cr
    unfolding r_def checkProtectiveStopProfit_p1_def Let_def t1_def [symmetric]
      req_def [symmetric]
    by (simp add: trig_def)
  show "calls (snd (snd r)) =
          calls w @ (if trig then [CreateOrder (marketCloseRequest (PositionAmt p))] else [])"
    using c by (cases trig; cases a) (simp_all add: r req_def)
  show "maxProfit (fst (snd r)) (Symbol p) =
          (if trig \<and> nextAnswer w = None then None else Some maxP)"
    using mp a by (cases trig; cases a) (simp_all add: r)
  show "fst r = (if trig then map_option ProtectiveCloseFailed (nextAnswer w) else None)"
    using a by (cases trig; cases a) (simp_all add: r)
qed

text \<open>
  C3 (amended). For a non-flat position, let \<open>maxP\<close> be the high-water mark
  after the current observation. The monitor issues exactly one call, a market
  order on the closing side for the formatted absolute quantity, if
  \<open>200 \<le> maxP\<close> and \<open>unPnl \<le> maxP * 0.5\<close>, and no call otherwise. The
  entry of the symbol is deleted if the order was issued and the venue accepted
  it; if the venue refused it the error is returned and the entry stays.
\<close>

theorem protective_exit_p1:
  assumes "PositionAmt position \<noteq> 0"
  shows "let amt = PositionAmt position; unPnl = UnRealizedProfit position;
             maxP = (case maxProfit t (Symbol position) of None \<Rightarrow> unPnl | Some m \<Rightarrow> max m unPnl);
             triggered = (200 \<le> maxP \<and> unPnl \<le> maxP * 0.5);
             r = checkProtectiveStopProfit_p1 position t w
         in issued w (snd (snd r)) =
              (if triggered
               then [CreateOrder
                      \<lparr>reqSymbol = ''SOLUSDC'',
                       reqSide = (if amt < 0 then SideTypeBuy else SideTypeSell),
                       reqPositionSide =
                         Some (if amt < 0 then PositionSideTypeShort else PositionSideTypeLong),
                       reqType = OrderTypeMarket, reqTimeInForce = None,
                       reqQuantity = Sprintf_f 4 \<bar>amt\<bar>, reqPrice = None,
                       reqStopPrice = None, reqWorkingType = None\<rparr>]
               else []) \<and>
            maxProfit (fst (snd r)) (Symbol position) =
              (if triggered \<and> nextAnswer w = None then None else Some maxP) \<and>
            fst r = (if triggered then map_option ProtectiveCloseFailed (nextAnswer w) else None)"
  unfolding Let_def
  using checkProtectiveStopProfit_p1_nonflat [OF assms, of t w]
  by (simp add: issued_def marketCloseRequest_def)

theorem protective_exit_p1_witness:
  "PositionAmt (withProfit 140) \<noteq> 0 \<and>
   issued quietWorld (snd (snd (checkProtectiveStopProfit_p1 (withProfit 140) peakTrader quietWorld)))
     = [CreateOrder
         \<lparr>reqSymbol = ''SOLUSDC'', reqSide = SideTypeSell,
          reqPositionSide = Some PositionSideTypeLong,
          reqType = OrderTypeMarket, reqTimeInForce = None,
          reqQuantity = 1, reqPrice = None, reqStopPrice = None, reqWorkingType = None\<rparr>] \<and>
   maxProfit (fst (snd (checkProtectiveStopProfit_p1 (withProfit 140) peakTrader quietWorld)))
     ''SOLUSDC'' = None \<and>
   fst (checkProtectiveStopProfit_p1 (withProfit 140) peakTrader quietWorld) = None"
proof -
  have nz: "PositionAmt (withProfit 140) \<noteq> 0"
    by (simp add: withProfit_def longPosition_def)
  have q: "Sprintf_f 4 1 = 1"
    by (simp add: Sprintf_f_def roundHalfEven_def)
  from protective_exit_p1 [OF nz, of peakTrader quietWorld] nz q show ?thesis
    by (simp add: Let_def withProfit_def longPosition_def peakTrader_def NewTrader_def
        nextAnswer_def quietWorld_def)
qed

text \<open>
  With the mark at 300 and the profit at 140 on a venue that refuses the order:
  the close is sent, the error comes back, and the entry is still 300.
\<close>

theorem protective_exit_p1_refused_keeps_state:
  "issued refusingWorld
     (snd (snd (checkProtectiveStopProfit_p1 (withProfit 140) peakTrader refusingWorld)))
     = [CreateOrder (marketCloseRequest 1)] \<and>
   fst (checkProtectiveStopProfit_p1 (withProfit 140) peakTrader refusingWorld)
     = Some (ProtectiveCloseFailed (VenueError 1)) \<and>
   maxProfit (fst (snd (checkProtectiveStopProfit_p1 (withProfit 140) peakTrader refusingWorld)))
     ''SOLUSDC'' = Some 300"
  by (simp add: checkProtectiveStopProfit_p1_def updateMaxProfit_p1_def lookup0_def Let_def
      withProfit_def longPosition_def peakTrader_def NewTrader_def refusingWorld_def
      quietWorld_def doCreateOrder_def gateway_def issued_def)

section \<open>The high-water mark\<close>

lemma checkProtectiveStopProfit_p1_quiet:
  assumes "PositionAmt p \<noteq> 0"
    and "calls (snd (snd (checkProtectiveStopProfit_p1 p t w))) = calls w"
  shows "maxProfit (fst (snd (checkProtectiveStopProfit_p1 p t w))) (Symbol p) =
           Some (case maxProfit t (Symbol p) of None \<Rightarrow> UnRealizedProfit p
                 | Some m \<Rightarrow> max m (UnRealizedProfit p))"
  using checkProtectiveStopProfit_p1_nonflat(1,2) [OF assms(1), of t w] assms(2)
  by (simp split: if_splits)

lemma checkProtectiveStopProfit_p1_calls:
  "\<exists>cs. calls (snd (snd (checkProtectiveStopProfit_p1 p t w))) = calls w @ cs"
proof (cases "PositionAmt p = 0")
  case True
  then show ?thesis by (simp add: checkProtectiveStopProfit_p1_def)
next
  case False
  from checkProtectiveStopProfit_p1_nonflat(1) [OF False, of t w] show ?thesis by blast
qed

lemma observe_p1_Cons:
  "observe_p1 (p # ps) (t, w) = observe_p1 ps (snd (checkProtectiveStopProfit_p1 p t w))"
  by (simp add: observe_p1_def)

lemma observe_p1_append: "observe_p1 (ps @ qs) tw = observe_p1 qs (observe_p1 ps tw)"
  by (simp add: observe_p1_def)

lemma observe_p1_calls: "\<exists>cs. calls (snd (observe_p1 ps (t, w))) = calls w @ cs"
proof (induction ps arbitrary: t w)
  case Nil
  then show ?case by (simp add: observe_p1_def)
next
  case (Cons p ps)
  obtain e t' w' where s: "checkProtectiveStopProfit_p1 p t w = (e, t', w')"
    by (cases "checkProtectiveStopProfit_p1 p t w") auto
  from checkProtectiveStopProfit_p1_calls [of p t w] s
  obtain cs where 1: "calls w' = calls w @ cs" by auto
  from Cons.IH [of t' w'] obtain ds where 2: "calls (snd (observe_p1 ps (t', w'))) = calls w' @ ds"
    by auto
  show ?case using 1 2 s by (simp add: observe_p1_Cons)
qed

lemma Max_step:
  fixes u :: real
  assumes "finite A"
  shows "Max (A \<union> {case m0 of None \<Rightarrow> u | Some m \<Rightarrow> max m u}) = Max (insert u A \<union> set_option m0)"
proof (cases m0)
  case None
  then show ?thesis by simp
next
  case (Some m)
  have "Max (insert (max m u) A) = Max (insert u (insert m A))"
  proof (cases "A = {}")
    case True
    then show ?thesis by (simp add: max.commute)
  next
    case False
    then show ?thesis using assms by (simp add: max.assoc max.commute max.left_commute)
  qed
  with Some show ?thesis by (simp add: insert_commute)
qed

lemma observe_p1_max:
  assumes "\<forall>p \<in> set ps. Symbol p = sy \<and> PositionAmt p \<noteq> 0"
    and "calls (snd (observe_p1 ps (t, w))) = calls w"
    and "ps \<noteq> []"
  shows "maxProfit (fst (observe_p1 ps (t, w))) sy =
           Some (Max (set (map UnRealizedProfit ps) \<union> set_option (maxProfit t sy)))"
  using assms
proof (induction ps arbitrary: t w)
  case Nil
  then show ?case by simp
next
  case (Cons p ps)
  obtain e t' w' where s: "checkProtectiveStopProfit_p1 p t w = (e, t', w')"
    by (cases "checkProtectiveStopProfit_p1 p t w") auto
  from checkProtectiveStopProfit_p1_calls [of p t w] s
  obtain cs where 1: "calls w' = calls w @ cs" by auto
  from observe_p1_calls [of ps t' w']
  obtain ds where 2: "calls (snd (observe_p1 ps (t', w'))) = calls w' @ ds" by auto
  from Cons.prems(2) s have 3: "calls (snd (observe_p1 ps (t', w'))) = calls w"
    by (simp add: observe_p1_Cons)
  from 1 2 3 have quiet: "calls w' = calls w" and quiet': "calls (snd (observe_p1 ps (t', w'))) = calls w'"
    by simp_all
  from Cons.prems(1) have sy: "Symbol p = sy" and nz: "PositionAmt p \<noteq> 0" by simp_all
  define m' where "m' = (case maxProfit t sy of None \<Rightarrow> UnRealizedProfit p
                          | Some m \<Rightarrow> max m (UnRealizedProfit p))"
  have st: "maxProfit t' sy = Some m'"
    using checkProtectiveStopProfit_p1_quiet [OF nz, of t w] quiet s sy by (simp add: m'_def)
  show ?case
  proof (cases "ps = []")
    case True
    then have "maxProfit (fst (observe_p1 (p # ps) (t, w))) sy = Some m'"
      using s st by (simp add: observe_p1_Cons observe_p1_def)
    moreover have "Max ({} \<union> {m'}) = Max (insert (UnRealizedProfit p) {} \<union> set_option (maxProfit t sy))"
      unfolding m'_def by (rule Max_step) simp
    ultimately show ?thesis using True by simp
  next
    case False
    from Cons.prems(1) have all: "\<forall>p \<in> set ps. Symbol p = sy \<and> PositionAmt p \<noteq> 0" by simp
    from Cons.IH [OF all quiet' False] st
    have "maxProfit (fst (observe_p1 ps (t', w'))) sy =
            Some (Max (set (map UnRealizedProfit ps) \<union> {m'}))"
      by simp
    moreover have "Max (set (map UnRealizedProfit ps) \<union> {m'}) =
        Max (insert (UnRealizedProfit p) (set (map UnRealizedProfit ps)) \<union> set_option (maxProfit t sy))"
      unfolding m'_def by (rule Max_step) simp
    ultimately show ?thesis using s by (simp add: observe_p1_Cons)
  qed
qed

lemma checkProtectiveStopProfit_p1_flat:
  "PositionAmt q = 0 \<Longrightarrow>
     maxProfit (fst (snd (checkProtectiveStopProfit_p1 q t w))) (Symbol q) = None"
  by (simp add: checkProtectiveStopProfit_p1_def)

text \<open>
  C2 (amended). Let the monitor of \<open>part_001\<close> see a sequence of snapshots of
  a non-flat position of one symbol, and let it issue no protective close
  during the sequence. Then after each snapshot the stored entry is the maximum
  of the unrealized profits seen so far and of the entry stored before the
  sequence, if there was one. A flat snapshot deletes the entry.
\<close>

theorem high_water_mark_p1:
  assumes "\<forall>p \<in> set ps. Symbol p = sy \<and> PositionAmt p \<noteq> 0"
    and "calls (snd (observe_p1 ps (t, w))) = calls w"
  shows "(\<forall>k. 0 < k \<and> k \<le> length ps \<longrightarrow>
            maxProfit (fst (observe_p1 (take k ps) (t, w))) sy =
              Some (Max (set (map UnRealizedProfit (take k ps)) \<union> set_option (maxProfit t sy)))) \<and>
         (\<forall>q t' w'. PositionAmt q = 0 \<longrightarrow>
            maxProfit (fst (snd (checkProtectiveStopProfit_p1 q t' w'))) (Symbol q) = None)"
proof (intro conjI allI impI)
  fix k
  assume k: "0 < k \<and> k \<le> length ps"
  obtain t1 w1 where o: "observe_p1 (take k ps) (t, w) = (t1, w1)"
    by (cases "observe_p1 (take k ps) (t, w)")
  from observe_p1_calls [of "take k ps" t w] o
  obtain cs where 1: "calls w1 = calls w @ cs" by auto
  from observe_p1_calls [of "drop k ps" t1 w1]
  obtain ds where 2: "calls (snd (observe_p1 (drop k ps) (t1, w1))) = calls w1 @ ds" by auto
  have "observe_p1 ps (t, w) = observe_p1 (drop k ps) (t1, w1)"
    using observe_p1_append [of "take k ps" "drop k ps" "(t, w)"] o by simp
  with assms(2) 1 2 have quiet: "calls (snd (observe_p1 (take k ps) (t, w))) = calls w"
    using o by simp
  have all: "\<forall>p \<in> set (take k ps). Symbol p = sy \<and> PositionAmt p \<noteq> 0"
    using assms(1) by (meson in_set_takeD)
  have ne: "take k ps \<noteq> []" using k by auto
  from observe_p1_max [OF all quiet ne]
  show "maxProfit (fst (observe_p1 (take k ps) (t, w))) sy =
          Some (Max (set (map UnRealizedProfit (take k ps)) \<union> set_option (maxProfit t sy)))" .
next
  fix q :: PositionRisk and t' :: Trader and w' :: world
  assume "PositionAmt q = 0"
  then show "maxProfit (fst (snd (checkProtectiveStopProfit_p1 q t' w'))) (Symbol q) = None"
    by (rule checkProtectiveStopProfit_p1_flat)
qed

lemma observe_p1_sample:
  "observe_p1 [withProfit 100, withProfit 300, withProfit 250] (NewTrader, quietWorld) =
     (NewTrader\<lparr>maxProfit := [''SOLUSDC'' \<mapsto> 300]\<rparr>, quietWorld)"
  by (simp add: observe_p1_def checkProtectiveStopProfit_p1_def updateMaxProfit_p1_def
      lookup0_def Let_def withProfit_def longPosition_def NewTrader_def)

theorem high_water_mark_p1_witness:
  "Symbol (withProfit 100) = ''SOLUSDC'' \<and> PositionAmt (withProfit 100) \<noteq> 0 \<and>
   Symbol (withProfit 300) = ''SOLUSDC'' \<and> PositionAmt (withProfit 300) \<noteq> 0 \<and>
   Symbol (withProfit 250) = ''SOLUSDC'' \<and> PositionAmt (withProfit 250) \<noteq> 0 \<and>
   calls (snd (observe_p1 [withProfit 100, withProfit 300, withProfit 250] (NewTrader, quietWorld)))
     = calls quietWorld \<and>
   maxProfit (fst (observe_p1 [withProfit 100] (NewTrader, quietWorld))) ''SOLUSDC'' = Some 100 \<and>
   maxProfit (fst (observe_p1 [withProfit 100, withProfit 300] (NewTrader, quietWorld))) ''SOLUSDC''
     = Some 300 \<and>
   maxProfit (fst (observe_p1 [withProfit 100, withProfit 300, withProfit 250]
                     (NewTrader, quietWorld))) ''SOLUSDC'' = Some 300 \<and>
   PositionAmt (flatPosition ''SOLUSDC'') = 0 \<and>
   maxProfit (fst (snd (checkProtectiveStopProfit_p1 (flatPosition ''SOLUSDC'') peakTrader quietWorld)))
     ''SOLUSDC'' = None"
proof -
  let ?ps = "[withProfit 100, withProfit 300, withProfit 250]"
  have nonflat: "\<forall>p \<in> set ?ps. Symbol p = ''SOLUSDC'' \<and> PositionAmt p \<noteq> 0"
    by (simp add: withProfit_def longPosition_def)
  have quiet: "calls (snd (observe_p1 ?ps (NewTrader, quietWorld))) = calls quietWorld"
    by (simp add: observe_p1_sample)
  have flat: "PositionAmt (flatPosition ''SOLUSDC'') = 0"
    by (simp add: flatPosition_def)
  note hw = high_water_mark_p1 [OF nonflat quiet]
  from hw have steps: "\<And>k. 0 < k \<and> k \<le> length ?ps \<Longrightarrow>
      maxProfit (fst (observe_p1 (take k ?ps) (NewTrader, quietWorld))) ''SOLUSDC'' =
        Some (Max (set (map UnRealizedProfit (take k ?ps)) \<union> set_option (maxProfit NewTrader ''SOLUSDC'')))"
    by blast
  from hw have del: "maxProfit (fst (snd (checkProtectiveStopProfit_p1 (flatPosition ''SOLUSDC'')
      peakTrader quietWorld))) (Symbol (flatPosition ''SOLUSDC'')) = None"
    using flat by blast
  have u: "UnRealizedProfit (withProfit x) = x" for x
    by (simp add: withProfit_def)
  have e: "maxProfit NewTrader ''SOLUSDC'' = None"
    by (simp add: NewTrader_def)
  from steps [of 1] have s1:
    "maxProfit (fst (observe_p1 [withProfit 100] (NewTrader, quietWorld))) ''SOLUSDC'' = Some 100"
    by (simp add: u e)
  from steps [of 2] have s2:
    "maxProfit (fst (observe_p1 [withProfit 100, withProfit 300] (NewTrader, quietWorld))) ''SOLUSDC''
       = Some 300"
    by (simp add: u e)
  from steps [of 3] have s3:
    "maxProfit (fst (observe_p1 ?ps (NewTrader, quietWorld))) ''SOLUSDC'' = Some 300"
    by (simp add: u e)
  from nonflat quiet s1 s2 s3 flat del show ?thesis
    by (simp add: flatPosition_def)
qed

text \<open>
  Two snapshots of the open long position, 300 and then 140, on an accepting
  venue: the second triggers the close, and the entry is gone although the
  largest profit seen is 300.
\<close>

theorem high_water_mark_p1_reset_by_close:
  "PositionAmt (withProfit 300) \<noteq> 0 \<and> PositionAmt (withProfit 140) \<noteq> 0 \<and>
   maxProfit (fst (observe_p1 [withProfit 300, withProfit 140] (NewTrader, quietWorld))) ''SOLUSDC''
     = None \<and>
   Max (set (map UnRealizedProfit [withProfit 300, withProfit 140])) = 300"
  by (simp add: observe_p1_def checkProtectiveStopProfit_p1_def updateMaxProfit_p1_def
      lookup0_def Let_def withProfit_def longPosition_def NewTrader_def quietWorld_def
      doCreateOrder_def gateway_def marketCloseRequest_def)

text \<open>
  The variants \<open>part_000\<close>, \<open>part_002\<close> and \<open>part_003\<close> take a stored 0 for
  a missing entry: a mark of 0 is replaced by a lower observation.
\<close>

lemma protectiveExit_zero_sentinel:
  "maxProfit (fst (snd (protectiveExit (withProfit (- 5))
      (NewTrader\<lparr>maxProfit := [''SOLUSDC'' \<mapsto> 0]\<rparr>) quietWorld))) ''SOLUSDC'' = Some (- 5)"
  by (simp add: protectiveExit_def lookup0_def Let_def withProfit_def longPosition_def
      NewTrader_def)

section \<open>Which orders the reconcilers place\<close>

lemma createRequests_append: "createRequests (cs @ ds) = createRequests cs @ createRequests ds"
  by (induction cs rule: createRequests.induct) simp_all

lemma doListOpenOrders_calls:
  "calls (snd (doListOpenOrders s w)) = calls w @ [ListOpenOrders s]"
  using gateway_calls [of "ListOpenOrders s" w]
  by (cases "gateway (ListOpenOrders s) w") (auto simp: doListOpenOrders_def split: option.splits)

lemma doCancelOrder_calls:
  "calls (snd (doCancelOrder s i w)) = calls w @ [CancelOrder s i]"
  using gateway_calls [of "CancelOrder s i" w]
  by (cases "gateway (CancelOrder s i) w") (auto simp: doCancelOrder_def split: option.splits)

lemma cancelEach_calls:
  "calls (cancelEach sel os w) =
     calls w @ map (\<lambda>ord. CancelOrder ''SOLUSDC'' (OrderID ord)) (filter sel os)"
  by (induction os arbitrary: w) (simp_all add: doCancelOrder_calls)

lemma createRequests_cancels:
  "createRequests (map (\<lambda>ord. CancelOrder s (OrderID ord)) os) = []"
  by (induction os) simp_all

lemma doListOpenOrders_creq:
  "createRequests (calls (snd (doListOpenOrders s w))) = createRequests (calls w)"
  by (simp add: doListOpenOrders_calls createRequests_append)

lemma cancelEach_creq: "createRequests (calls (cancelEach sel os w)) = createRequests (calls w)"
  by (simp add: cancelEach_calls createRequests_append createRequests_cancels)

lemma cancelAllTPSL_p0_creq:
  "createRequests (calls (snd (cancelAllTPSL_p0 w))) = createRequests (calls w)"
  by (simp add: cancelAllTPSL_p0_def case_prod_beta cancelEach_creq doListOpenOrders_creq
      split: sum.split)

lemma doCreateOrder_creq:
  "createRequests (calls (snd (doCreateOrder req w))) = createRequests (calls w) @ [req]"
  by (simp add: doCreateOrder_calls createRequests_append)

lemma time_Sleep_calls: "calls (time_Sleep d w) = calls w"
  by (simp add: time_Sleep_def)

lemmas creq_simps =
  doListOpenOrders_creq cancelEach_creq cancelAllTPSL_p0_creq doCreateOrder_creq time_Sleep_calls

lemma checkAndSetStopLoss_p0_places:
  "set (placed w (snd (snd (checkAndSetStopLoss_p0 position t w))))
     \<subseteq> {stopLossRequest (PositionAmt position)
           (roundToTickSize (if 0 < PositionAmt position then EntryPrice position - 1
                             else EntryPrice position + 1) 0.01) None}"
  by (simp add: checkAndSetStopLoss_p0_def Let_def placed_def case_prod_beta creq_simps
      split: sum.split option.split)

lemma checkAndSetStopLoss_p1_places:
  "set (placed w (snd (snd (checkAndSetStopLoss_p1 position t w))))
     \<subseteq> {stopLossRequest (PositionAmt position)
           (roundToTickSize (if 0 < PositionAmt position then EntryPrice position - 1
                             else EntryPrice position + 1) 0.01) None}"
  by (simp add: checkAndSetStopLoss_p1_def Let_def placed_def case_prod_beta creq_simps
      split: sum.split option.split)

lemma checkAndSetTakeProfit_p1_places:
  "set (placed w (snd (snd (checkAndSetTakeProfit_p1 position t w))))
     \<subseteq> {takeProfitRequest (PositionAmt position)
           (roundToTickSize (if 0 < PositionAmt position then EntryPrice position + 2
                             else EntryPrice position - 2) 0.01) None}"
  by (simp add: checkAndSetTakeProfit_p1_def Let_def placed_def case_prod_beta creq_simps
      split: sum.split option.split)

section \<open>Rounding\<close>

lemma math_Round_int: "\<exists>k::int. math_Round y = of_int k"
  by (simp add: math_Round_def) (metis of_int_minus)

lemma floor_half_near:
  fixes z :: real
  shows "\<bar>of_int \<lfloor>z + 1 / 2\<rfloor> - z\<bar> \<le> 1 / 2"
proof -
  have "of_int \<lfloor>z + 1 / 2\<rfloor> \<le> z + 1 / 2" and "z + 1 / 2 < of_int \<lfloor>z + 1 / 2\<rfloor> + 1"
    by linarith+
  then show ?thesis by linarith
qed

lemma math_Round_near: "\<bar>math_Round y - y\<bar> \<le> 1 / 2"
proof (cases "y < 0")
  case True
  have "\<bar>- of_int \<lfloor>- y + 1 / 2\<rfloor> - y\<bar> = \<bar>of_int \<lfloor>- y + 1 / 2\<rfloor> - (- y)\<bar>"
    by (simp add: abs_if)
  with floor_half_near [of "- y"] True show ?thesis
    by (simp only: math_Round_def if_True)
next
  case False
  from floor_half_near [of y] False show ?thesis
    by (simp add: math_Round_def)
qed

lemma roundToTickSize_near: "\<bar>roundToTickSize x 0.01 - x\<bar> \<le> 0.005"
proof -
  have "\<bar>math_Round (x * 100) - x * 100\<bar> \<le> 1 / 2"
    by (rule math_Round_near)
  then show ?thesis
    by (simp add: roundToTickSize_def abs_le_iff field_simps)
qed

lemma roundHalfEven_of_int: "roundHalfEven (of_int k) = k"
  by (simp add: roundHalfEven_def)


lemma Sprintf_f_tick: "Sprintf_f 2 (roundToTickSize x 0.01) = roundToTickSize x 0.01"
proof -
  obtain k :: int where k: "math_Round (x / 0.01) = of_int k"
    using math_Round_int by blast
  then show ?thesis
    by (simp add: Sprintf_f_def roundToTickSize_def roundHalfEven_of_int)
qed

lemma Sprintf_f_tick_100: "Sprintf_f 2 (roundToTickSize x (1 / 100)) = roundToTickSize x (1 / 100)"
  using Sprintf_f_tick [of x] by simp

lemma roundToTickSize_bounds:
  "x - 1 / 200 \<le> roundToTickSize x (1 / 100)" "roundToTickSize x (1 / 100) \<le> x + 1 / 200"
proof -
  have "\<bar>roundToTickSize x (1 / 100) - x\<bar> \<le> 1 / 200"
    using roundToTickSize_near [of x] by simp
  then show "x - 1 / 200 \<le> roundToTickSize x (1 / 100)"
    and "roundToTickSize x (1 / 100) \<le> x + 1 / 200"
    by linarith+
qed

lemma roundToTickSize_sides:
  "roundToTickSize (e - 1) (1 / 100) < e" "e < roundToTickSize (e + 1) (1 / 100)"
  "e < roundToTickSize (e + 2) (1 / 100)" "roundToTickSize (e - 2) (1 / 100) < e"
  using roundToTickSize_bounds [of "e - 1"] roundToTickSize_bounds [of "e + 1"]
    roundToTickSize_bounds [of "e + 2"] roundToTickSize_bounds [of "e - 2"]
  by linarith+


section \<open>Placement prices\<close>

lemma doListOpenOrders_accepting:
  "script w = [] \<Longrightarrow>
     doListOpenOrders s w = (Inr (book w), w\<lparr>calls := calls w @ [ListOpenOrders s]\<rparr>)"
  by (simp add: doListOpenOrders_def gateway_def)

lemma doCreateOrder_accepting:
  "script w = [] \<Longrightarrow> reqType req \<noteq> OrderTypeMarket \<Longrightarrow>
     doCreateOrder req w =
       (None, w\<lparr>calls := calls w @ [CreateOrder req],
                book := book w @ [restingOrder (nextID w) (marksReduceOnly w) req],
                nextID := nextID w + 1\<rparr>)"
  by (simp add: doCreateOrder_def gateway_def)

lemma cancelAllTPSL_p0_nothing:
  "script w = [] \<Longrightarrow> book w = [] \<Longrightarrow>
     cancelAllTPSL_p0 w = (None, w\<lparr>calls := calls w @ [ListOpenOrders ''SOLUSDC'']\<rparr>)"
  by (simp add: cancelAllTPSL_p0_def doListOpenOrders_accepting)

lemma checkAndSetStopLoss_p0_fresh:
  assumes "PositionAmt position \<noteq> 0" and "book w = []" and "script w = []"
  shows "placed w (snd (snd (checkAndSetStopLoss_p0 position t w))) =
           [stopLossRequest (PositionAmt position)
              (roundToTickSize (if 0 < PositionAmt position then EntryPrice position - 1
                                else EntryPrice position + 1) 0.01) None]"
  using assms
  by (simp add: checkAndSetStopLoss_p0_def Let_def placed_def doListOpenOrders_accepting
      cancelAllTPSL_p0_nothing doCreateOrder_accepting hasValidStopLoss_p0_def
      time_Sleep_def stopLossRequest_def createRequests_append)

lemma checkAndSetTakeProfit_p1_fresh:
  assumes "PositionAmt position \<noteq> 0" and "book w = []" and "script w = []"
  shows "placed w (snd (snd (checkAndSetTakeProfit_p1 position t w))) =
           [takeProfitRequest (PositionAmt position)
              (roundToTickSize (if 0 < PositionAmt position then EntryPrice position + 2
                                else EntryPrice position - 2) 0.01) None]"
  using assms
  by (simp add: checkAndSetTakeProfit_p1_def Let_def placed_def doListOpenOrders_accepting
      cancelAllTPSL_p0_nothing doCreateOrder_accepting hasTakeProfit_p1_def totalQty_def
      time_Sleep_def takeProfitRequest_def createRequests_append)



section \<open>Side and price of the protective orders\<close>

lemma stopLossRequest_closes:
  assumes "req = stopLossRequest amt (roundToTickSize (if 0 < amt then e - 1 else e + 1) 0.01) wt"
  shows "reqType req = OrderTypeStopMarket"
    and "0 < amt \<Longrightarrow> reqSide req = SideTypeSell \<and> (\<exists>sp. reqStopPrice req = Some sp \<and> sp < e)"
    and "amt < 0 \<Longrightarrow> reqSide req = SideTypeBuy \<and> (\<exists>sp. reqStopPrice req = Some sp \<and> e < sp)"
proof -
  show "reqType req = OrderTypeStopMarket"
    using assms by (simp add: stopLossRequest_def)
  show "reqSide req = SideTypeSell \<and> (\<exists>sp. reqStopPrice req = Some sp \<and> sp < e)" if "0 < amt"
    using assms that
    by (simp add: stopLossRequest_def Sprintf_f_tick_100 roundToTickSize_sides)
  show "reqSide req = SideTypeBuy \<and> (\<exists>sp. reqStopPrice req = Some sp \<and> e < sp)" if "amt < 0"
    using assms that
    by (simp add: stopLossRequest_def Sprintf_f_tick_100 roundToTickSize_sides)
qed

lemma takeProfitRequest_closes:
  assumes "req = takeProfitRequest amt (roundToTickSize (if 0 < amt then e + 2 else e - 2) 0.01) wt"
  shows "reqType req = OrderTypeLimit"
    and "0 < amt \<Longrightarrow> reqSide req = SideTypeSell \<and> (\<exists>pr. reqPrice req = Some pr \<and> e < pr)"
    and "amt < 0 \<Longrightarrow> reqSide req = SideTypeBuy \<and> (\<exists>pr. reqPrice req = Some pr \<and> pr < e)"
proof -
  show "reqType req = OrderTypeLimit"
    using assms by (simp add: takeProfitRequest_def)
  show "reqSide req = SideTypeSell \<and> (\<exists>pr. reqPrice req = Some pr \<and> e < pr)" if "0 < amt"
    using assms that
    by (simp add: takeProfitRequest_def Sprintf_f_tick_100 roundToTickSize_sides)
  show "reqSide req = SideTypeBuy \<and> (\<exists>pr. reqPrice req = Some pr \<and> pr < e)" if "amt < 0"
    using assms that
    by (simp add: takeProfitRequest_def Sprintf_f_tick_100 roundToTickSize_sides)
qed

text \<open>
  C4 (amended). Every order the reconciler places is on the closing side of
  the position, a stop-loss with its stop price below the entry price for a
  long and above it for a short, a take-profit with its price above the entry
  price for a long and below it for a short. The resting orders \<open>part_001\<close>
  accepts as the stop-loss or the take-profit in place are of the right type and
  on the closing side; their prices are not looked at.
\<close>

theorem placed_orders_close_the_position:
  "let amt = PositionAmt position; entryPrice = EntryPrice position
   in (\<forall>req \<in> set (placed w (snd (snd (checkAndSetStopLoss_p0 position t w)))) \<union>
                 set (placed w (snd (snd (checkAndSetStopLoss_p1 position t w)))).
         reqType req = OrderTypeStopMarket \<and>
         (0 < amt \<longrightarrow> reqSide req = SideTypeSell \<and>
                      (\<exists>sp. reqStopPrice req = Some sp \<and> sp < entryPrice)) \<and>
         (amt < 0 \<longrightarrow> reqSide req = SideTypeBuy \<and>
                      (\<exists>sp. reqStopPrice req = Some sp \<and> entryPrice < sp))) \<and>
      (\<forall>req \<in> set (placed w (snd (snd (checkAndSetTakeProfit_p1 position t w)))).
         reqType req = OrderTypeLimit \<and>
         (0 < amt \<longrightarrow> reqSide req = SideTypeSell \<and>
                      (\<exists>pr. reqPrice req = Some pr \<and> entryPrice < pr)) \<and>
         (amt < 0 \<longrightarrow> reqSide req = SideTypeBuy \<and>
                      (\<exists>pr. reqPrice req = Some pr \<and> pr < entryPrice))) \<and>
      (hasStopLoss_p1 amt orders \<longrightarrow>
         (\<exists>ord \<in> set orders. Type ord = OrderTypeStopMarket \<and>
            Side ord = (if 0 < amt then SideTypeSell else SideTypeBuy))) \<and>
      (hasTakeProfit_p1 amt orders \<longrightarrow>
         (\<exists>ord \<in> set orders. Type ord = OrderTypeLimit \<and>
            Side ord = (if 0 < amt then SideTypeSell else SideTypeBuy)))"
proof -
  have sl: "reqType req = OrderTypeStopMarket \<and>
         (0 < PositionAmt position \<longrightarrow> reqSide req = SideTypeSell \<and>
            (\<exists>sp. reqStopPrice req = Some sp \<and> sp < EntryPrice position)) \<and>
         (PositionAmt position < 0 \<longrightarrow> reqSide req = SideTypeBuy \<and>
            (\<exists>sp. reqStopPrice req = Some sp \<and> EntryPrice position < sp))"
    if "req \<in> set (placed w (snd (snd (checkAndSetStopLoss_p0 position t w)))) \<union>
              set (placed w (snd (snd (checkAndSetStopLoss_p1 position t w))))" for req
  proof -
    from that checkAndSetStopLoss_p0_places [of w position t]
      checkAndSetStopLoss_p1_places [of w position t]
    have "req = stopLossRequest (PositionAmt position)
           (roundToTickSize (if 0 < PositionAmt position then EntryPrice position - 1
                             else EntryPrice position + 1) 0.01) None"
      by blast
    from stopLossRequest_closes [OF this] show ?thesis by blast
  qed
  have tp: "reqType req = OrderTypeLimit \<and>
         (0 < PositionAmt position \<longrightarrow> reqSide req = SideTypeSell \<and>
            (\<exists>pr. reqPrice req = Some pr \<and> EntryPrice position < pr)) \<and>
         (PositionAmt position < 0 \<longrightarrow> reqSide req = SideTypeBuy \<and>
            (\<exists>pr. reqPrice req = Some pr \<and> pr < EntryPrice position))"
    if "req \<in> set (placed w (snd (snd (checkAndSetTakeProfit_p1 position t w))))" for req
  proof -
    from that checkAndSetTakeProfit_p1_places [of w position t]
    have "req = takeProfitRequest (PositionAmt position)
           (roundToTickSize (if 0 < PositionAmt position then EntryPrice position + 2
                             else EntryPrice position - 2) 0.01) None"
      by blast
    from takeProfitRequest_closes [OF this] show ?thesis by blast
  qed
  have hs: "\<exists>ord \<in> set orders. Type ord = OrderTypeStopMarket \<and>
              Side ord = (if 0 < PositionAmt position then SideTypeSell else SideTypeBuy)"
    if "hasStopLoss_p1 (PositionAmt position) orders"
    using that by (auto simp: hasStopLoss_p1_def list_ex_iff)
  have ht: "\<exists>ord \<in> set orders. Type ord = OrderTypeLimit \<and>
              Side ord = (if 0 < PositionAmt position then SideTypeSell else SideTypeBuy)"
    if "hasTakeProfit_p1 (PositionAmt position) orders"
    using that by (auto simp: hasTakeProfit_p1_def list_ex_iff)
  show ?thesis
    unfolding Let_def using sl tp hs ht by blast
qed

theorem placed_orders_close_the_position_witness:
  "PositionAmt longPosition = 1 \<and> EntryPrice longPosition = 100 \<and>
   placed quietWorld (snd (snd (checkAndSetStopLoss_p0 longPosition NewTrader quietWorld)))
     = [stopLossRequest 1 99 None] \<and>
   reqType (stopLossRequest 1 99 None) = OrderTypeStopMarket \<and>
   reqSide (stopLossRequest 1 99 None) = SideTypeSell \<and>
   reqStopPrice (stopLossRequest 1 99 None) = Some 99 \<and>
   placed quietWorld (snd (snd (checkAndSetTakeProfit_p1 longPosition NewTrader quietWorld)))
     = [takeProfitRequest 1 102 None] \<and>
   reqType (takeProfitRequest 1 102 None) = OrderTypeLimit \<and>
   reqSide (takeProfitRequest 1 102 None) = SideTypeSell \<and>
   reqPrice (takeProfitRequest 1 102 None) = Some 102 \<and>
   hasStopLoss_p1 1 [restingOrder 1 False (stopLossRequest 1 99 None)] \<and>
   Side (restingOrder 1 False (stopLossRequest 1 99 None)) = SideTypeSell \<and>
   hasTakeProfit_p1 1 [restingOrder 2 False (takeProfitRequest 1 102 None)] \<and>
   Side (restingOrder 2 False (takeProfitRequest 1 102 None)) = SideTypeSell"
proof -
  have v: "PositionAmt longPosition = 1" "EntryPrice longPosition = 100"
    by (simp_all add: longPosition_def)
  have pre: "PositionAmt longPosition \<noteq> 0" "book quietWorld = []" "script quietWorld = []"
    by (simp_all add: longPosition_def quietWorld_def)
  have r: "roundToTickSize 99 0.01 = 99" "roundToTickSize 102 0.01 = 102"
    by (simp_all add: roundToTickSize_def math_Round_def)
  have f: "Sprintf_f 2 99 = 99" "Sprintf_f 2 102 = 102" "Sprintf_f 4 1 = 1"
    by (simp_all add: Sprintf_f_def roundHalfEven_def)
  have sl: "placed quietWorld (snd (snd (checkAndSetStopLoss_p0 longPosition NewTrader quietWorld)))
              = [stopLossRequest 1 99 None]"
    using checkAndSetStopLoss_p0_fresh [OF pre, of NewTrader] r by (simp add: v)
  have tp: "placed quietWorld (snd (snd (checkAndSetTakeProfit_p1 longPosition NewTrader quietWorld)))
              = [takeProfitRequest 1 102 None]"
    using checkAndSetTakeProfit_p1_fresh [OF pre, of NewTrader] r by (simp add: v)
  have h: "hasStopLoss_p1 1 [restingOrder 1 False (stopLossRequest 1 99 None)]"
    "hasTakeProfit_p1 1 [restingOrder 2 False (takeProfitRequest 1 102 None)]"
    by (simp_all add: hasStopLoss_p1_def hasTakeProfit_p1_def restingOrder_def
        stopLossRequest_def takeProfitRequest_def)
  from placed_orders_close_the_position
         [where position = longPosition and w = quietWorld and t = NewTrader
            and orders = "[restingOrder 1 False (stopLossRequest 1 99 None)]"]
  have "reqType (stopLossRequest 1 99 None) = OrderTypeStopMarket \<and>
        reqSide (stopLossRequest 1 99 None) = SideTypeSell \<and>
        reqType (takeProfitRequest 1 102 None) = OrderTypeLimit \<and>
        reqSide (takeProfitRequest 1 102 None) = SideTypeSell"
    unfolding Let_def sl tp v by simp
  with v sl tp h show ?thesis
    by (simp add: stopLossRequest_def takeProfitRequest_def restingOrder_def f)
qed

text \<open>
  \<open>part_001\<close>, long 1 at 100, a sell stop of quantity 1 resting with its
  trigger at 150: the check takes it for the stop-loss and does nothing.
\<close>

theorem stop_above_entry_accepted_p1:
  "PositionAmt longPosition = 1 \<and> EntryPrice longPosition = 100 \<and>
   Type highStop = OrderTypeStopMarket \<and> Side highStop = SideTypeSell \<and>
   StopPrice highStop = 150 \<and>
   hasStopLoss_p1 (PositionAmt longPosition) [highStop] \<and>
   checkAndSetStopLoss_p1 longPosition NewTrader (quietWorld\<lparr>book := [highStop]\<rparr>) =
     (None, NewTrader,
      quietWorld\<lparr>book := [highStop], calls := [ListOpenOrders ''SOLUSDC'']\<rparr>)"
  by (simp add: checkAndSetStopLoss_p1_def hasStopLoss_p1_def totalQty_def Let_def
      longPosition_def highStop_def quietWorld_def doListOpenOrders_def gateway_def)

text \<open>
  \<open>part_000\<close> goes by type and quantity alone: it takes a buy stop above the
  entry price for the valid stop-loss of a long.
\<close>

lemma wrong_side_stop_accepted_p0:
  "hasValidStopLoss_p0 (PositionAmt longPosition) [wrongSideStop] \<and>
   Side wrongSideStop = SideTypeBuy \<and> StopPrice wrongSideStop = 150 \<and>
   checkAndSetStopLoss_p0 longPosition NewTrader (quietWorld\<lparr>book := [wrongSideStop]\<rparr>) =
     (None, NewTrader,
      quietWorld\<lparr>book := [wrongSideStop], calls := [ListOpenOrders ''SOLUSDC'']\<rparr>)"
  by (simp add: checkAndSetStopLoss_p0_def hasValidStopLoss_p0_def qtyMatches_def Let_def
      longPosition_def wrongSideStop_def quietWorld_def doListOpenOrders_def gateway_def)

section \<open>The selective cancel of \<open>part_003\<close>\<close>

lemma gateway_book: "book (snd (gateway c w)) = book w"
  by (simp add: gateway_def split: list.splits prod.splits)

lemma doListOpenOrders_book: "book (snd (doListOpenOrders s w)) = book w"
  using gateway_book [of "ListOpenOrders s" w]
  by (cases "gateway (ListOpenOrders s) w") (auto simp: doListOpenOrders_def split: option.splits)

lemma doListOpenOrders_lists:
  "fst (doListOpenOrders s w) = Inr orders \<Longrightarrow> orders = book w"
  using gateway_book [of "ListOpenOrders s" w]
  by (cases "gateway (ListOpenOrders s) w") (auto simp: doListOpenOrders_def split: option.splits)

lemma doCancelOrder_book:
  "book (snd (doCancelOrder s i w)) = book w \<or>
   book (snd (doCancelOrder s i w)) = filter (\<lambda>ord. OrderID ord \<noteq> i) (book w)"
  using gateway_book [of "CancelOrder s i" w]
  by (cases "gateway (CancelOrder s i) w") (auto simp: doCancelOrder_def split: option.splits)


lemma cancelEach_book_keeps:
  assumes "ord \<in> set (book w)" and "\<forall>x \<in> set os. sel x \<longrightarrow> OrderID x \<noteq> OrderID ord"
  shows "ord \<in> set (book (cancelEach sel os w))"
  using assms
proof (induction os arbitrary: w)
  case Nil
  then show ?case by simp
next
  case (Cons a os)
  show ?case
  proof (cases "sel a")
    case False
    with Cons show ?thesis by simp
  next
    case True
    with Cons.prems(2) have "OrderID a \<noteq> OrderID ord" by simp
    with Cons.prems(1) have "ord \<in> set (book (snd (doCancelOrder ''SOLUSDC'' (OrderID a) w)))"
      using doCancelOrder_book [of "''SOLUSDC''" "OrderID a" w] by auto
    with Cons True show ?thesis by simp
  qed
qed

text \<open>
  C10. Let \<open>cancelAllTPSL\<close> of \<open>part_003\<close> run with a non-zero position
  quantity against a venue whose resting orders have distinct ids, whatever the
  venue answers. Every resting order whose quantity matches the absolute
  position quantity within 0.0001 is still resting afterwards and no cancel was
  issued for its id; an order that is gone was a reduce-only limit or a
  stop-market order of mismatched quantity; and every cancel issued names such
  an order.
\<close>

theorem selective_cancel_keeps_matching:
  assumes "currentAmt \<noteq> 0" and "distinct (map OrderID (book w))"
  shows "(\<forall>ord \<in> set (book w). qtyMatches currentAmt ord \<longrightarrow>
            ord \<in> set (book (snd (cancelAllTPSL_p3 currentAmt w))) \<and>
            CancelOrder ''SOLUSDC'' (OrderID ord)
              \<notin> set (issued w (snd (cancelAllTPSL_p3 currentAmt w)))) \<and>
         (\<forall>ord \<in> set (book w). ord \<notin> set (book (snd (cancelAllTPSL_p3 currentAmt w))) \<longrightarrow>
            isTPSL ord \<and> \<not> qtyMatches currentAmt ord) \<and>
         (\<forall>c \<in> set (issued w (snd (cancelAllTPSL_p3 currentAmt w))).
            c = ListOpenOrders ''SOLUSDC'' \<or>
            (\<exists>ord \<in> set (book w). isTPSL ord \<and> \<not> qtyMatches currentAmt ord \<and>
               c = CancelOrder ''SOLUSDC'' (OrderID ord)))"
proof -
  define sel where "sel = (\<lambda>ord. isTPSL ord \<and> \<not> (currentAmt \<noteq> 0 \<and> qtyMatches currentAmt ord))"
  have sel: "sel ord \<longleftrightarrow> isTPSL ord \<and> \<not> qtyMatches currentAmt ord" for ord
    using assms(1) by (simp add: sel_def)
  define w' where "w' = snd (cancelAllTPSL_p3 currentAmt w)"
  obtain r w1 where l: "doListOpenOrders ''SOLUSDC'' w = (r, w1)"
    by (cases "doListOpenOrders ''SOLUSDC'' w")
  have b1: "book w1 = book w"
    using doListOpenOrders_book [of "''SOLUSDC''" w] l by simp
  have c1: "calls w1 = calls w @ [ListOpenOrders ''SOLUSDC'']"
    using doListOpenOrders_calls [of "''SOLUSDC''" w] l by simp
  have inj: "x = y" if "x \<in> set (book w)" "y \<in> set (book w)" "OrderID x = OrderID y" for x y
    using assms(2) that by (meson distinct_map inj_onD)
  consider (fail) err where "r = Inl err" "w' = w1"
    | (ok) "w' = cancelEach sel (book w) w1"
  proof (cases r)
    case (Inl err)
    with l have "w' = w1" by (simp add: w'_def cancelAllTPSL_p3_def)
    with Inl show ?thesis by (rule fail)
  next
    case (Inr orders)
    with l have "orders = book w"
      using doListOpenOrders_lists [of "''SOLUSDC''" w orders] by simp
    with Inr l have "w' = cancelEach sel (book w) w1"
      by (simp add: w'_def cancelAllTPSL_p3_def sel_def)
    then show ?thesis by (rule ok)
  qed
  then have "(\<forall>ord \<in> set (book w). qtyMatches currentAmt ord \<longrightarrow>
            ord \<in> set (book w') \<and> CancelOrder ''SOLUSDC'' (OrderID ord) \<notin> set (issued w w')) \<and>
         (\<forall>ord \<in> set (book w). ord \<notin> set (book w') \<longrightarrow> isTPSL ord \<and> \<not> qtyMatches currentAmt ord) \<and>
         (\<forall>c \<in> set (issued w w').
            c = ListOpenOrders ''SOLUSDC'' \<or>
            (\<exists>ord \<in> set (book w). isTPSL ord \<and> \<not> qtyMatches currentAmt ord \<and>
               c = CancelOrder ''SOLUSDC'' (OrderID ord)))"
  proof cases
    case fail
    then show ?thesis using b1 c1 by (simp add: issued_def)
  next
    case ok
    have iss: "issued w w' = ListOpenOrders ''SOLUSDC'' #
                 map (\<lambda>ord. CancelOrder ''SOLUSDC'' (OrderID ord)) (filter sel (book w))"
      using ok c1 by (simp add: issued_def cancelEach_calls)
    have keep: "ord \<in> set (book w')" if "ord \<in> set (book w)" "\<not> sel ord" for ord
    proof -
      have "\<forall>x \<in> set (book w). sel x \<longrightarrow> OrderID x \<noteq> OrderID ord"
        using that inj by blast
      with that(1) b1 show ?thesis
        unfolding ok by (intro cancelEach_book_keeps) simp_all
    qed
    have nocancel: "CancelOrder ''SOLUSDC'' (OrderID ord) \<notin> set (issued w w')"
      if "ord \<in> set (book w)" "\<not> sel ord" for ord
      using that inj by (auto simp: iss)
    show ?thesis
      using keep nocancel by (auto simp: sel iss)
  qed
  then show ?thesis by (simp add: w'_def)
qed

lemma cancelAllTPSL_p3_sample:
  "cancelAllTPSL_p3 1
     (quietWorld\<lparr>book := [sellStop 1 5, sellStop 2 1, sellLimit 3 1, sellLimit 4 2]\<rparr>) =
   (None,
    quietWorld\<lparr>book := [sellStop 2 1, sellLimit 3 1],
               calls := [ListOpenOrders ''SOLUSDC'', CancelOrder ''SOLUSDC'' 1,
                         CancelOrder ''SOLUSDC'' 4]\<rparr>)"
  by (simp add: cancelAllTPSL_p3_def doListOpenOrders_def doCancelOrder_def gateway_def
      quietWorld_def isTPSL_def qtyMatches_def sellStop_def sellLimit_def)

theorem selective_cancel_keeps_matching_witness:
  "(1::real) \<noteq> 0 \<and>
   distinct (map OrderID
     (book (quietWorld\<lparr>book := [sellStop 1 5, sellStop 2 1, sellLimit 3 1, sellLimit 4 2]\<rparr>))) \<and>
   qtyMatches 1 (sellStop 2 1) \<and> qtyMatches 1 (sellLimit 3 1) \<and>
   sellStop 2 1 \<in> set (book (snd (cancelAllTPSL_p3 1
     (quietWorld\<lparr>book := [sellStop 1 5, sellStop 2 1, sellLimit 3 1, sellLimit 4 2]\<rparr>)))) \<and>
   sellLimit 3 1 \<in> set (book (snd (cancelAllTPSL_p3 1
     (quietWorld\<lparr>book := [sellStop 1 5, sellStop 2 1, sellLimit 3 1, sellLimit 4 2]\<rparr>)))) \<and>
   book (snd (cancelAllTPSL_p3 1
     (quietWorld\<lparr>book := [sellStop 1 5, sellStop 2 1, sellLimit 3 1, sellLimit 4 2]\<rparr>)))
     = [sellStop 2 1, sellLimit 3 1] \<and>
   issued (quietWorld\<lparr>book := [sellStop 1 5, sellStop 2 1, sellLimit 3 1, sellLimit 4 2]\<rparr>)
     (snd (cancelAllTPSL_p3 1
       (quietWorld\<lparr>book := [sellStop 1 5, sellStop 2 1, sellLimit 3 1, sellLimit 4 2]\<rparr>)))
     = [ListOpenOrders ''SOLUSDC'', CancelOrder ''SOLUSDC'' 1, CancelOrder ''SOLUSDC'' 4]"
proof -
  let ?w = "quietWorld\<lparr>book := [sellStop 1 5, sellStop 2 1, sellLimit 3 1, sellLimit 4 2]\<rparr>"
  have nz: "(1::real) \<noteq> 0" by simp
  have d: "distinct (map OrderID (book ?w))"
    by (simp add: sellStop_def sellLimit_def)
  have m: "qtyMatches 1 (sellStop 2 1)" "qtyMatches 1 (sellLimit 3 1)"
    by (simp_all add: qtyMatches_def sellStop_def sellLimit_def)
  have i: "sellStop 2 1 \<in> set (book ?w)" "sellLimit 3 1 \<in> set (book ?w)"
    by simp_all
  from selective_cancel_keeps_matching [OF nz d] m i
  have kept: "sellStop 2 1 \<in> set (book (snd (cancelAllTPSL_p3 1 ?w)))"
    "sellLimit 3 1 \<in> set (book (snd (cancelAllTPSL_p3 1 ?w)))"
    by blast+
  have c: "calls ?w = []" by (simp add: quietWorld_def)
  from nz d m kept show ?thesis
    by (simp add: cancelAllTPSL_p3_sample issued_def c)
qed

section \<open>The reconciler of \<open>part_003\<close> on an accepting venue\<close>










lemmas venue_defs =
  doListOpenOrders_def doCancelOrder_def doCreateOrder_def doGetPositionRisk_def gateway_def
  time_Sleep_def restingOrder_def

lemmas sample_defs =
  quietWorld_def longPosition_def NewTrader_def sellStop_def sellLimit_def

lemmas number_defs =
  Sprintf_f_def roundHalfEven_def roundToTickSize_def math_Round_def qtyMatches_def lookup0_def



text \<open>
  In \<open>part_001\<close> the two legs undo each other: from an empty book the turn
  places the take-profit, and the stop-loss check that follows cancels it again
  before it places the stop-loss.
\<close>

lemma run_tick_p1_fresh:
  "placed (quietWorld\<lparr>risk := [longPosition]\<rparr>)
     (snd (run_tick_p1 NewTrader (quietWorld\<lparr>risk := [longPosition]\<rparr>))) =
     [takeProfitRequest 1 102 None, stopLossRequest 1 99 None] \<and>
   book (snd (run_tick_p1 NewTrader (quietWorld\<lparr>risk := [longPosition]\<rparr>))) =
     [\<lparr>OrderID = 2, Side = SideTypeSell, PositionSide = PositionSideTypeLong,
       Type = OrderTypeStopMarket, OrigQuantity = 1, Price = 0, StopPrice = 99,
       ReduceOnly = False\<rparr>]"
  by (simp add: run_tick_p1_def handlePosition_p1_def logError_def
      checkProtectiveStopProfit_p1_def updateMaxProfit_p1_def
      checkAndSetTakeProfit_p1_def checkAndSetStopLoss_p1_def cancelAllTPSL_p0_def
      hasTakeProfit_p1_def hasStopLoss_p1_def totalQty_def placed_def
      takeProfitRequest_def stopLossRequest_def Let_def
      venue_defs sample_defs number_defs)

section \<open>A failing placement\<close>

text \<open>
  C6. In \<open>part_002\<close> both legs are missing and the venue refuses the
  stop-loss: the function returns that error at once, and the only placement it
  has attempted is the stop-loss; the take-profit is never sent.
\<close>

theorem stop_loss_failure_suppresses_take_profit_p2:
  "fst (checkProtectiveStopProfit_p2 longPosition NewTrader
          (quietWorld\<lparr>script := [(0, None), (0, None), (0, Some (VenueError 1))]\<rparr>))
     = Some (CreateStopLossFailed (VenueError 1)) \<and>
   placed (quietWorld\<lparr>script := [(0, None), (0, None), (0, Some (VenueError 1))]\<rparr>)
     (snd (snd (checkProtectiveStopProfit_p2 longPosition NewTrader
          (quietWorld\<lparr>script := [(0, None), (0, None), (0, Some (VenueError 1))]\<rparr>))))
     = [stopLossRequest 1 99 None] \<and>
   script (snd (snd (checkProtectiveStopProfit_p2 longPosition NewTrader
          (quietWorld\<lparr>script := [(0, None), (0, None), (0, Some (VenueError 1))]\<rparr>)))) = [] \<and>
   book (snd (snd (checkProtectiveStopProfit_p2 longPosition NewTrader
          (quietWorld\<lparr>script := [(0, None), (0, None), (0, Some (VenueError 1))]\<rparr>)))) = []"
  by (simp add: checkProtectiveStopProfit_p2_def cancelAllTPSL_p2_def placeBoth_p2_def
      missingLeg_def hasValidStopLoss_def hasValidTakeProfit_def placed_def
      stopLossRequest_def Let_def venue_defs sample_defs number_defs)

text \<open>
  The same failure in the independent top-up of \<open>part_003\<close>, and the loop of
  \<open>part_001\<close>, where a refused take-profit is printed and the stop-loss is
  placed all the same.
\<close>

lemma stop_loss_failure_suppresses_take_profit_p3:
  "fst (checkProtectiveStopProfit_p3 longPosition NewTrader
          (quietWorld\<lparr>script := [(0, None), (0, None), (0, None), (0, Some (VenueError 1))]\<rparr>))
     = Some (CreateStopLossFailed (VenueError 1)) \<and>
   placed (quietWorld\<lparr>script := [(0, None), (0, None), (0, None), (0, Some (VenueError 1))]\<rparr>)
     (snd (snd (checkProtectiveStopProfit_p3 longPosition NewTrader
          (quietWorld\<lparr>script := [(0, None), (0, None), (0, None), (0, Some (VenueError 1))]\<rparr>))))
     = [stopLossRequest 1 99 (Some ''CONTRACT_PRICE'')]"
  by (simp add: checkProtectiveStopProfit_p3_def relist_p3_def cancelAllTPSL_p3_def
      placeMissing_p3_def hasValidStopLoss_def hasValidTakeProfit_def placed_def
      stopLossRequest_def Let_def venue_defs sample_defs number_defs)

lemma take_profit_failure_keeps_stop_loss_p1:
  "placed (quietWorld\<lparr>risk := [longPosition],
                      script := [(0, None), (0, None), (0, None), (0, Some (VenueError 1))]\<rparr>)
     (snd (run_tick_p1 NewTrader
        (quietWorld\<lparr>risk := [longPosition],
                    script := [(0, None), (0, None), (0, None), (0, Some (VenueError 1))]\<rparr>))) =
     [takeProfitRequest 1 102 None, stopLossRequest 1 99 None] \<and>
   logged (snd (run_tick_p1 NewTrader
        (quietWorld\<lparr>risk := [longPosition],
                    script := [(0, None), (0, None), (0, None), (0, Some (VenueError 1))]\<rparr>))) =
     [CreateTakeProfitFailed (VenueError 1)]"
  by (simp add: run_tick_p1_def handlePosition_p1_def logError_def
      checkProtectiveStopProfit_p1_def updateMaxProfit_p1_def
      checkAndSetTakeProfit_p1_def checkAndSetStopLoss_p1_def cancelAllTPSL_p0_def
      hasTakeProfit_p1_def hasStopLoss_p1_def totalQty_def placed_def
      takeProfitRequest_def stopLossRequest_def Let_def
      venue_defs sample_defs number_defs)

end
